theory Spec2Isabelle
  imports Main
begin

section \<open>Python values and built-ins used by the evaluators\<close>

text \<open>
  The four Streamlit front ends (\<^verbatim>\<open>ecosystem_evaluator.py\<close>, \<^verbatim>\<open>platform_evaluator.py\<close>,
  \<^verbatim>\<open>evaluator_digital_disruption.py\<close>, \<^verbatim>\<open>evaluator_transformation_plan.py\<close>) share one
  handler; they differ in the rubric part keys, the section titles and the way the API key
  is obtained. Strings are byte lists (UTF-8); the only non-ASCII text of the sources that
  the model needs (the two badges and the dash of the section titles) is written as bytes.
  The submission text is the exception: the code strips it, and \<^verbatim>\<open>str.strip\<close> works on
  code points, so the submission is the list of its code points.

  \<^verbatim>\<open>str.lower\<close> is modelled on the ASCII letters. No code point outside ASCII lowers to
  one of the letters of \<^verbatim>\<open>yes\<close>, \<^verbatim>\<open>pass\<close> or \<^verbatim>\<open>fail\<close>, so the
  comparisons of the source against these three words are decided as in Python.
  \<^verbatim>\<open>str.strip\<close> removes the code points that \<^verbatim>\<open>str.isspace\<close> accepts: the ASCII white
  space and separators, U+0085, U+00A0, U+1680, U+2000 to U+200A, U+2028, U+2029, U+202F,
  U+205F and U+3000.
\<close>

type_synonym unicode = "nat list"

definition ascii :: "string \<Rightarrow> unicode" where
  "ascii s = map of_char s"

definition py_lower_char :: "char \<Rightarrow> char" where
  "py_lower_char c =
     (case map_of (zip ''ABCDEFGHIJKLMNOPQRSTUVWXYZ'' ''abcdefghijklmnopqrstuvwxyz'') c of
        Some l \<Rightarrow> l | None \<Rightarrow> c)"

definition py_lower :: "string \<Rightarrow> string" where
  "py_lower s = map py_lower_char s"

definition py_isspace :: "nat \<Rightarrow> bool" where
  "py_isspace c =
     (c \<in> set [0x09, 0x0A, 0x0B, 0x0C, 0x0D, 0x1C, 0x1D, 0x1E, 0x1F, 0x20, 0x85, 0xA0, 0x1680,
               0x2000, 0x2001, 0x2002, 0x2003, 0x2004, 0x2005, 0x2006, 0x2007, 0x2008, 0x2009,
               0x200A, 0x2028, 0x2029, 0x202F, 0x205F, 0x3000])"

definition py_strip :: "unicode \<Rightarrow> unicode" where
  "py_strip s = rev (dropWhile py_isspace (rev (dropWhile py_isspace s)))"

definition digit_char :: "nat \<Rightarrow> char" where
  "digit_char d = ''0123456789abcdef'' ! d"

fun show_nat :: "nat \<Rightarrow> string" where
  "show_nat n = (if n < 10 then [digit_char n] else show_nat (n div 10) @ [digit_char (n mod 10)])"

declare show_nat.simps [simp del]

fun py_join :: "string \<Rightarrow> string list \<Rightarrow> string" where
  "py_join sep [] = []"
| "py_join sep [x] = x"
| "py_join sep (x # y # xs) = x @ sep @ py_join sep (y # xs)"

text \<open>
  A Python float as \<^verbatim>\<open>repr\<close> sees it: the sign, the shortest decimal digits that
  round-trip (read as a number) and the position of the decimal point after the first
  \<open>decpt\<close> digits; or an infinity, or a NaN. \<open>float_str\<close> is \<^verbatim>\<open>repr\<close>: fixed notation
  when \<open>-4 < decpt \<le> 16\<close>, exponent notation otherwise.
\<close>

datatype pyfloat = Finite bool nat int | Infinite bool | NaN

fun float_str :: "pyfloat \<Rightarrow> string" where
  "float_str NaN = ''nan''"
| "float_str (Infinite neg) = (if neg then ''-inf'' else ''inf'')"
| "float_str (Finite neg m decpt) =
     (let ds = show_nat m; n = int (length ds);
          body =
            (if - 4 < decpt \<and> decpt \<le> 16 then
               (if decpt \<le> 0 then ''0.'' @ replicate (nat (- decpt)) CHR ''0'' @ ds
                else if n \<le> decpt then ds @ replicate (nat (decpt - n)) CHR ''0'' @ ''.0''
                else take (nat decpt) ds @ ''.'' @ drop (nat decpt) ds)
             else
               take 1 ds @ (if 1 < n then ''.'' @ drop 1 ds else [])
                 @ ''e'' @ (if decpt - 1 < 0 then ''-'' else ''+'')
                 @ (let e = nat (abs (decpt - 1)) in (if e < 10 then ''0'' else []) @ show_nat e))
      in (if neg then ''-'' else []) @ body)"

text \<open>What \<^verbatim>\<open>json.loads\<close> returns: None, a bool, an int, a float, a str, a list, or a dict
  (insertion-ordered, with string keys).\<close>

datatype json =
    JNull
  | JBool bool
  | JInt int
  | JFloat pyfloat
  | JStr string
  | JList "json list"
  | JDict "(string \<times> json) list"

text \<open>\<^verbatim>\<open>repr\<close> of a str: single quotes unless the text has a single quote and no double
  quote; the quote and the backslash are escaped, and characters that are not printable
  are written as escapes. On the bytes of the text these are the ASCII control characters
  and, in the two-byte sequences that start with \<^verbatim>\<open>C2\<close>, the code points U+0080 to U+00A0
  and U+00AD. The escapes \<^verbatim>\<open>\u\<close> and \<^verbatim>\<open>\U\<close> of the characters beyond U+00FF that are not
  printable (U+2028 and the like) are not modelled: such a character stays as it is. The
  only use of \<open>repr_str\<close> is the text of a list or of a dict inside a display.\<close>

definition repr_char :: "char \<Rightarrow> char \<Rightarrow> string" where
  "repr_char q c =
     (let n = (of_char c :: nat) in
      if c = q \<or> c = CHR 0x5C then [CHR 0x5C, c]
      else if c = CHR 0x09 then [CHR 0x5C, CHR ''t'']
      else if c = CHR 0x0A then [CHR 0x5C, CHR ''n'']
      else if c = CHR 0x0D then [CHR 0x5C, CHR ''r'']
      else if n < 32 \<or> n = 127 then [CHR 0x5C, CHR ''x'', digit_char (n div 16), digit_char (n mod 16)]
      else [c])"

fun repr_body :: "char \<Rightarrow> string \<Rightarrow> string" where
  "repr_body q [] = []"
| "repr_body q [c] = repr_char q c"
| "repr_body q (c # d # cs) =
     (let n = (of_char d :: nat) in
      if c = CHR 0xC2 \<and> (n \<le> 0xA0 \<or> n = 0xAD)
      then [CHR 0x5C, CHR ''x'', digit_char (n div 16), digit_char (n mod 16)] @ repr_body q cs
      else repr_char q c @ repr_body q (d # cs))"

definition repr_str :: "string \<Rightarrow> string" where
  "repr_str s =
     (let q = (if CHR 0x27 \<in> set s \<and> CHR 0x22 \<notin> set s then CHR 0x22 else CHR 0x27)
      in q # repr_body q s @ [q])"

text \<open>\<^verbatim>\<open>str(v)\<close>, which is also what an f-string field \<^verbatim>\<open>{v}\<close> prints.\<close>

fun py_str :: "json \<Rightarrow> string" and py_repr :: "json \<Rightarrow> string" where
  "py_str JNull = ''None''"
| "py_str (JBool b) = (if b then ''True'' else ''False'')"
| "py_str (JInt i) = (if i < 0 then CHR ''-'' # show_nat (nat (- i)) else show_nat (nat i))"
| "py_str (JFloat f) = float_str f"
| "py_str (JStr s) = s"
| "py_str (JList xs) = ''['' @ py_join '', '' (map py_repr xs) @ '']''"
| "py_str (JDict kvs) =
     ''{'' @ py_join '', '' (map (\<lambda>(k, v). repr_str k @ '': '' @ py_repr v) kvs) @ ''}''"
| "py_repr (JStr s) = repr_str s"
| "py_repr v = py_str v"

text \<open>Truth value of a value, as \<^verbatim>\<open>if comments:\<close> tests it.\<close>

fun py_truthy :: "json \<Rightarrow> bool" where
  "py_truthy JNull = False"
| "py_truthy (JBool b) = b"
| "py_truthy (JInt i) = (i \<noteq> 0)"
| "py_truthy (JFloat (Finite neg m decpt)) = (m \<noteq> 0)"
| "py_truthy (JFloat f) = True"
| "py_truthy (JStr s) = (s \<noteq> [])"
| "py_truthy (JList xs) = (xs \<noteq> [])"
| "py_truthy (JDict kvs) = (kvs \<noteq> [])"

text \<open>Exceptions are values. \<open>ServiceError\<close> stands for whatever the OpenAI client raises,
  with its message; \<open>StreamlitSecretNotFoundError\<close> is what \<^verbatim>\<open>st.secrets\<close> raises when the
  deployment has no secrets file.\<close>

datatype exn =
    AttributeError
  | TypeError
  | KeyError
  | JSONDecodeError
  | StreamlitSecretNotFoundError
  | ServiceError string

text \<open>\<^verbatim>\<open>x.get(key, default)\<close>: only a dict has the method; on any other value the
  attribute lookup raises AttributeError.\<close>

fun py_get :: "json \<Rightarrow> string \<Rightarrow> json \<Rightarrow> exn + json" where
  "py_get (JDict kvs) key dflt = Inr (case map_of kvs key of Some v \<Rightarrow> v | None \<Rightarrow> dflt)"
| "py_get v key dflt = Inl AttributeError"

section \<open>The rendered page\<close>

text \<open>
  Each call of a Streamlit display function is an event, in the order of the calls. The
  two \<^verbatim>\<open>st.markdown\<close> templates of the source (the section card and the criterion card) are
  constant HTML around the interpolated fields; their events carry those fields.
  \<open>RemoteCall\<close> records an invocation of \<^verbatim>\<open>call_agent\<close>.
\<close>

datatype event =
    Warning string
  | Subheader string
  | SectionCard string
  | ItemCard string string string string
  | Success string
  | Error string
  | Info string
  | Markdown string
  | Write json
  | ExceptionBox exn
  | RemoteCall string string unicode

definition check_mark :: string where
  "check_mark = [CHR 0xE2, CHR 0x9C, CHR 0x85]"

definition cross_mark :: string where
  "cross_mark = [CHR 0xE2, CHR 0x9D, CHR 0x8C]"

definition em_dash :: string where
  "em_dash = [CHR 0xE2, CHR 0x80, CHR 0x94]"

datatype variant = Ecosystem | Platform | DigitalDisruption | TransformationPlan

text \<open>The part keys each variant looks up, with the title of the part's section.\<close>

fun parts :: "variant \<Rightarrow> (string \<times> string) list" where
  "parts Ecosystem =
     [(''part1_complementors_intermediaries'',
         ''Part 1 '' @ em_dash @ '' Core Complementors and Intermediaries''),
      (''part2_mve'', ''Part 2 '' @ em_dash @ '' Minimal Viable Ecosystem (MVE)''),
      (''part3_risks'', ''Part 3 '' @ em_dash @ '' Core Ecosystem Risks'')]"
| "parts Platform =
     [(''part1_interactions_actors'', ''Part 1 '' @ em_dash @ '' Core Interactions and Actors''),
      (''part2_chicken_egg'', ''Part 2 '' @ em_dash @ '' Solving the Chicken or Egg Problem''),
      (''part3_monetization'', ''Part 3 '' @ em_dash @ '' Monetization Strategy'')]"
| "parts DigitalDisruption =
     [(''part1'', ''Part 1 '' @ em_dash @ '' Business Model''),
      (''part2'', ''Part 2 '' @ em_dash @ '' Disruptors''),
      (''part3'', ''Part 3 '' @ em_dash @ '' Strategies'')]"
| "parts TransformationPlan =
     [(''part1_awareness'', ''Part 1 '' @ em_dash @ '' Awareness''),
      (''part2_vision'', ''Part 2 '' @ em_dash @ '' Digital Vision''),
      (''part3_use_cases'', ''Part 3 '' @ em_dash @ '' Use Cases''),
      (''part4_employee_engagement'', ''Part 4 '' @ em_dash @ '' Employee Engagement'')]"

text \<open>
  The body of the inner \<^verbatim>\<open>try\<close> displays as it goes: what was displayed before an
  exception stays on the page. So every step returns the events it emitted together with
  the exception that stopped it, if any.
\<close>

type_synonym outcome = "event list \<times> exn option"

text \<open>\<^verbatim>\<open>render_items(items)\<close>: one card per criterion, in the order of the dict.\<close>

definition item_card :: "string \<Rightarrow> json \<Rightarrow> exn + event" where
  "item_card key val =
     (case py_get val ''value'' (JStr ''no'') of
        Inl e \<Rightarrow> Inl e
      | Inr v \<Rightarrow>
          (let ok = (py_lower (py_str v) = ''yes'');
               badge = (if ok then check_mark else cross_mark);
               color = (if ok then ''#0f766e'' else ''#b91c1c'')
           in case py_get val ''explanation'' (JStr []) of
                Inl e \<Rightarrow> Inl e
              | Inr ex \<Rightarrow> Inr (ItemCard badge key color (py_str ex))))"

fun render_items :: "(string \<times> json) list \<Rightarrow> outcome" where
  "render_items [] = ([], None)"
| "render_items ((key, val) # rest) =
     (case item_card key val of
        Inl e \<Rightarrow> ([], Some e)
      | Inr c \<Rightarrow> (let (evs, r) = render_items rest in (c # evs, r)))"

text \<open>One guarded part: \<^verbatim>\<open>if isinstance(data.get(key), dict): section(title);
  render_items(data[key])\<close>.\<close>

definition render_part :: "json \<Rightarrow> string \<times> string \<Rightarrow> outcome" where
  "render_part data p =
     (case py_get data (fst p) JNull of
        Inl e \<Rightarrow> ([], Some e)
      | Inr (JDict items) \<Rightarrow> (let (evs, r) = render_items items in (SectionCard (snd p) # evs, r))
      | Inr _ \<Rightarrow> ([], None))"

fun render_parts :: "json \<Rightarrow> (string \<times> string) list \<Rightarrow> outcome" where
  "render_parts data [] = ([], None)"
| "render_parts data (p # ps) =
     (case render_part data p of
        (evs, Some e) \<Rightarrow> (evs, Some e)
      | (evs, None) \<Rightarrow> (let (evs', r) = render_parts data ps in (evs @ evs', r)))"

text \<open>The final grade banner.\<close>

definition final_grade_banner :: "json \<Rightarrow> exn + event" where
  "final_grade_banner data =
     (case py_get data ''final_grade'' (JStr []) of
        Inl e \<Rightarrow> Inl e
      | Inr g \<Rightarrow>
          (let final_grade = py_lower (py_str g) in
           if final_grade = ''pass'' then Inr (Success ''Final Grade: PASS'')
           else if final_grade = ''fail'' then Inr (Error ''Final Grade: FAIL'')
           else Inr (Info (''Final Grade: '' @ py_str g))))"

text \<open>The overall comments.\<close>

definition overall_comments :: "json \<Rightarrow> exn + event list" where
  "overall_comments data =
     (case py_get data ''overall_comments'' (JStr []) of
        Inl e \<Rightarrow> Inl e
      | Inr comments \<Rightarrow>
          Inr (if py_truthy comments then [Markdown ''### Overall Comments'', Write comments]
               else []))"

text \<open>The body of the inner \<^verbatim>\<open>try\<close> after \<^verbatim>\<open>json.loads\<close>: the parts, the banner, the
  comments.\<close>

definition render_structured :: "variant \<Rightarrow> json \<Rightarrow> outcome" where
  "render_structured v data =
     (case render_parts data (parts v) of
        (evs, Some e) \<Rightarrow> (evs, Some e)
      | (evs, None) \<Rightarrow>
          (case final_grade_banner data of
             Inl e \<Rightarrow> (evs, Some e)
           | Inr banner \<Rightarrow>
               (case overall_comments data of
                  Inl e \<Rightarrow> (evs @ [banner], Some e)
                | Inr cs \<Rightarrow> (evs @ [banner] @ cs, None))))"

text \<open>The \<^verbatim>\<open>except Exception\<close> branch of the inner \<^verbatim>\<open>try\<close>.\<close>

definition fallback :: "string \<Rightarrow> event list" where
  "fallback result =
     [Warning ''Could not parse the evaluation into sections. Showing compact text.'',
      Write (JStr result)]"

text \<open>
  The inner \<^verbatim>\<open>try\<close> as a whole. \<open>parsed\<close> is what \<^verbatim>\<open>json.loads(result)\<close> did: it raised
  (\<open>Inl\<close>) or returned a value (\<open>Inr\<close>). \<^verbatim>\<open>json.loads\<close> is the standard library's and is
  not modelled further.
\<close>

definition render_report :: "variant \<Rightarrow> string \<Rightarrow> exn + json \<Rightarrow> event list" where
  "render_report v result parsed =
     (case parsed of
        Inl e \<Rightarrow> fallback result
      | Inr data \<Rightarrow>
          (case render_structured v data of
             (evs, None) \<Rightarrow> evs
           | (evs, Some e) \<Rightarrow> evs @ fallback result))"

section \<open>The run handler\<close>

text \<open>
  The block under \<^verbatim>\<open>if run:\<close>. Its parameters stand for code that is not the
  repository's: \<open>agent api_key model user_text\<close> is what \<^verbatim>\<open>call_agent\<close> did (\<open>Inl msg\<close>:
  it raised an exception printing as \<open>msg\<close>; \<open>Inr result\<close>: it returned the text), and
  \<open>loads\<close> is \<^verbatim>\<open>json.loads\<close>. \<open>env\<close> is \<^verbatim>\<open>os.environ\<close> as the handler finds it.
  The variable \<^verbatim>\<open>pretty\<close> of the source is computed and never used; it is left out.
\<close>

definition no_credential :: "variant \<Rightarrow> string \<Rightarrow> (string \<rightharpoonup> string) \<Rightarrow> bool" where
  "no_credential v api_key env =
     (case v of
        TransformationPlan \<Rightarrow> api_key = []
      | _ \<Rightarrow> api_key = [] \<and> (case env ''OPENAI_API_KEY'' of None \<Rightarrow> True | Some k \<Rightarrow> k = []))"

definition credential_warning :: "variant \<Rightarrow> string" where
  "credential_warning v =
     (case v of
        TransformationPlan \<Rightarrow>
          ''Provide an OpenAI API key in the sidebar, set OPENAI_API_KEY secret, or set OPENAI_API_KEY environment variable.''
      | _ \<Rightarrow> ''Provide an OpenAI API key in the sidebar or set OPENAI_API_KEY.'')"

definition run_handler ::
  "variant \<Rightarrow> (string \<Rightarrow> string \<Rightarrow> unicode \<Rightarrow> string + string) \<Rightarrow> (string \<Rightarrow> exn + json)
     \<Rightarrow> string \<Rightarrow> (string \<rightharpoonup> string) \<Rightarrow> string \<Rightarrow> unicode \<Rightarrow> event list" where
  "run_handler v agent loads api_key env model user_text =
     (if py_strip user_text = [] then
        [Warning ''Please paste your submission text before evaluating.'']
      else if no_credential v api_key env then
        [Warning (credential_warning v)]
      else
        RemoteCall api_key model user_text #
          (case agent api_key model user_text of
             Inl msg \<Rightarrow> [Error (''Evaluation failed: '' @ msg), ExceptionBox (ServiceError msg)]
           | Inr result \<Rightarrow> Subheader ''Result'' # render_report v result (loads result)))"

text \<open>
  The script from its top to the handler. What the user and the deployment supply: the key
  typed in the sidebar (where the variant has that field), the model name, the submission,
  whether the button was pressed, \<^verbatim>\<open>st.secrets\<close> and \<^verbatim>\<open>os.environ\<close>. The secrets are
  \<open>None\<close> when the deployment has no secrets file, and the entries of the file otherwise.
\<close>

record inputs =
  inp_sidebar_key :: string
  inp_model :: string
  inp_user_text :: unicode
  inp_run :: bool
  inp_secrets :: "(string \<rightharpoonup> string) option"
  inp_environ :: "string \<rightharpoonup> string"

text \<open>
  How each variant obtains \<^verbatim>\<open>api_key\<close>, with the environment it leaves. The ecosystem and
  platform variants read the sidebar field and never touch the secrets. The digital
  disruption variant indexes \<^verbatim>\<open>st.secrets["OPENAI_API_KEY"]\<close>, which raises
  StreamlitSecretNotFoundError when there is no secrets file and KeyError when the file
  has no such key, and copies the secret into the environment. The transformation plan
  variant calls \<^verbatim>\<open>st.secrets.get("OPENAI_API_KEY", os.environ.get("OPENAI_API_KEY", ""))\<close>:
  without a secrets file this raises too (\<^verbatim>\<open>get\<close> catches KeyError only); with one it
  gives the secret, else the environment variable, else the empty string, and an empty
  result is replaced by the sidebar field.
\<close>

definition acquire_key :: "variant \<Rightarrow> inputs \<Rightarrow> exn + string \<times> (string \<rightharpoonup> string)" where
  "acquire_key v inp =
     (case v of
        DigitalDisruption \<Rightarrow>
          (case inp_secrets inp of
             None \<Rightarrow> Inl StreamlitSecretNotFoundError
           | Some store \<Rightarrow>
               (case store ''OPENAI_API_KEY'' of
                  None \<Rightarrow> Inl KeyError
                | Some k \<Rightarrow> Inr (k, (inp_environ inp)(''OPENAI_API_KEY'' \<mapsto> k))))
      | TransformationPlan \<Rightarrow>
          (case inp_secrets inp of
             None \<Rightarrow> Inl StreamlitSecretNotFoundError
           | Some store \<Rightarrow>
               (let k = (case store ''OPENAI_API_KEY'' of
                           Some s \<Rightarrow> s
                         | None \<Rightarrow>
                             (case inp_environ inp ''OPENAI_API_KEY'' of Some s \<Rightarrow> s | None \<Rightarrow> []))
                in Inr (if k = [] then inp_sidebar_key inp else k, inp_environ inp)))
      | _ \<Rightarrow> Inr (inp_sidebar_key inp, inp_environ inp))"

text \<open>One run of the script: an exception at the top level ends it before the button
  and the handler exist.\<close>

definition page ::
  "variant \<Rightarrow> (string \<Rightarrow> string \<Rightarrow> unicode \<Rightarrow> string + string) \<Rightarrow> (string \<Rightarrow> exn + json)
     \<Rightarrow> inputs \<Rightarrow> outcome" where
  "page v agent loads inp =
     (case acquire_key v inp of
        Inl e \<Rightarrow> ([], Some e)
      | Inr (api_key, env) \<Rightarrow>
          (if inp_run inp then run_handler v agent loads api_key env (inp_model inp) (inp_user_text inp)
           else [], None))"

section \<open>Extracting the text of a response\<close>

text \<open>
  \<^verbatim>\<open>call_agent\<close> inspects the response by attribute name (\<^verbatim>\<open>getattr\<close>, \<^verbatim>\<open>hasattr\<close>), so
  the response is modelled as a dynamically typed value: an object is the list of its
  attributes. \<open>PObj\<close> is an object with an instance dictionary (\<^verbatim>\<open>__dict__\<close>), as the
  objects of the OpenAI client are; \<open>PSlots\<close> is an object without one (a class that
  declares \<^verbatim>\<open>__slots__\<close>). Values without the attributes \<^verbatim>\<open>output\<close>, \<^verbatim>\<open>content\<close>,
  \<^verbatim>\<open>type\<close>, \<^verbatim>\<open>text\<close>, \<^verbatim>\<open>output_text\<close>, \<^verbatim>\<open>__dict__\<close> (None, numbers, strings, lists)
  have no attributes here.
\<close>

datatype pyval =
    PNone
  | PInt int
  | PStr string
  | PList "pyval list"
  | PObj "(string \<times> pyval) list"
  | PSlots "(string \<times> pyval) list"

fun getattr :: "pyval \<Rightarrow> string \<Rightarrow> pyval option" where
  "getattr (PObj attrs) name = map_of attrs name"
| "getattr (PSlots attrs) name = map_of attrs name"
| "getattr v name = None"

text \<open>\<^verbatim>\<open>x.__dict__\<close>, which raises AttributeError on a value that has none.\<close>

fun py_dict :: "pyval \<Rightarrow> exn + (string \<times> pyval) list" where
  "py_dict (PObj attrs) = Inr attrs"
| "py_dict v = Inl AttributeError"

definition getattr_default :: "pyval \<Rightarrow> string \<Rightarrow> pyval \<Rightarrow> pyval" where
  "getattr_default v name dflt = (case getattr v name of Some x \<Rightarrow> x | None \<Rightarrow> dflt)"

fun truthy :: "pyval \<Rightarrow> bool" where
  "truthy PNone = False"
| "truthy (PInt i) = (i \<noteq> 0)"
| "truthy (PStr s) = (s \<noteq> [])"
| "truthy (PList xs) = (xs \<noteq> [])"
| "truthy (PObj attrs) = True"
| "truthy (PSlots attrs) = True"

definition py_or :: "pyval \<Rightarrow> pyval \<Rightarrow> pyval" where
  "py_or a b = (if truthy a then a else b)"

text \<open>\<^verbatim>\<open>for x in v\<close>: a list gives its elements, a string its characters; None, a number
  and a plain object are not iterable.\<close>

fun py_iter :: "pyval \<Rightarrow> exn + pyval list" where
  "py_iter (PList xs) = Inr xs"
| "py_iter (PStr s) = Inr (map (\<lambda>c. PStr [c]) s)"
| "py_iter v = Inl TypeError"

text \<open>The inner loop over \<^verbatim>\<open>out.content\<close>: the text of the first part whose type is
  \<^verbatim>\<open>output_text\<close>, if there is one.\<close>

fun scan_content :: "pyval list \<Rightarrow> exn + pyval option" where
  "scan_content [] = Inr None"
| "scan_content (c # cs) =
     (case getattr c ''type'' of
        None \<Rightarrow> Inl AttributeError
      | Some t \<Rightarrow>
          if t = PStr ''output_text'' then
            (case getattr c ''text'' of None \<Rightarrow> Inl AttributeError | Some x \<Rightarrow> Inr (Some x))
          else scan_content cs)"

text \<open>The body of the outer loop for one item, before \<^verbatim>\<open>if text_out: break\<close>: the new
  value of \<^verbatim>\<open>text_out\<close>.\<close>

definition scan_item :: "pyval \<Rightarrow> pyval \<Rightarrow> exn + pyval" where
  "scan_item text_out out =
     (case getattr out ''content'' of
        None \<Rightarrow> Inr text_out
      | Some content \<Rightarrow>
          (case py_iter content of
             Inl e \<Rightarrow> Inl e
           | Inr cs \<Rightarrow>
               (case scan_content cs of
                  Inl e \<Rightarrow> Inl e
                | Inr None \<Rightarrow> Inr text_out
                | Inr (Some x) \<Rightarrow> Inr x)))"

fun scan_output :: "pyval \<Rightarrow> pyval list \<Rightarrow> exn + pyval" where
  "scan_output text_out [] = Inr text_out"
| "scan_output text_out (out # outs) =
     (case scan_item text_out out of
        Inl e \<Rightarrow> Inl e
      | Inr t \<Rightarrow> if truthy t then Inr t else scan_output t outs)"

text \<open>The two loops of the \<^verbatim>\<open>try\<close> block: \<^verbatim>\<open>for out in getattr(response, "output", [])
  or []\<close> with its body.\<close>

definition scan_segments :: "pyval \<Rightarrow> exn + pyval" where
  "scan_segments response =
     (case py_iter (py_or (getattr_default response ''output'' (PList [])) (PList [])) of
        Inl e \<Rightarrow> Inl e
      | Inr outs \<Rightarrow> scan_output PNone outs)"

text \<open>The \<^verbatim>\<open>try\<close> block of \<^verbatim>\<open>call_agent\<close>.\<close>

definition try_extract :: "pyval \<Rightarrow> exn + pyval" where
  "try_extract response =
     (case scan_segments response of
        Inl e \<Rightarrow> Inl e
      | Inr text_out \<Rightarrow>
          (case getattr response ''output_text'' of
             Some x \<Rightarrow> Inr (if \<not> truthy text_out then x else text_out)
           | None \<Rightarrow> Inr text_out))"

text \<open>
  \<^verbatim>\<open>json.dumps(response.__dict__, default=str)\<close>, the last expression of \<^verbatim>\<open>call_agent\<close>. It
  is outside the \<^verbatim>\<open>try\<close>, so the AttributeError of a response without \<^verbatim>\<open>__dict__\<close>
  leaves \<^verbatim>\<open>call_agent\<close>. \<open>dumps\<close> stands for the standard library's serialisation of the
  dictionary; with \<^verbatim>\<open>default=str\<close> it has no failing case on the values of this model
  (string keys, no cyclic lists).
\<close>

definition serialise :: "((string \<times> pyval) list \<Rightarrow> string) \<Rightarrow> pyval \<Rightarrow> exn + string" where
  "serialise dumps response =
     (case py_dict response of Inl e \<Rightarrow> Inl e | Inr attrs \<Rightarrow> Inr (dumps attrs))"

text \<open>A stand-in for \<^verbatim>\<open>json.dumps\<close> where an example needs a concrete one: it gives the names
  of the attributes only.\<close>

definition dumps_names :: "(string \<times> pyval) list \<Rightarrow> string" where
  "dumps_names attrs = py_join '', '' (map fst attrs)"

text \<open>The extraction after the request: the \<^verbatim>\<open>try\<close> block, the fallback on the two
  fields, and the return.\<close>

definition extract_text :: "((string \<times> pyval) list \<Rightarrow> string) \<Rightarrow> pyval \<Rightarrow> exn + string" where
  "extract_text dumps response =
     (let text_out = (case try_extract response of Inl e \<Rightarrow> PNone | Inr t \<Rightarrow> t);
          text_out = (if \<not> truthy text_out
                      then py_or (getattr_default response ''output_text'' PNone)
                                 (getattr_default response ''content'' PNone)
                      else text_out)
      in case text_out of PStr s \<Rightarrow> Inr s | _ \<Rightarrow> serialise dumps response)"

text \<open>\<^verbatim>\<open>call_agent\<close>: \<open>transport\<close> stands for the construction of the client and the one
  request, which either raises or returns the response object.\<close>

definition call_agent ::
  "(string \<Rightarrow> string \<Rightarrow> unicode \<Rightarrow> exn + pyval) \<Rightarrow> ((string \<times> pyval) list \<Rightarrow> string)
     \<Rightarrow> string \<Rightarrow> string \<Rightarrow> unicode \<Rightarrow> exn + string" where
  "call_agent transport dumps api_key model user_text =
     (case transport api_key model user_text of
        Inl e \<Rightarrow> Inl e
      | Inr response \<Rightarrow> extract_text dumps response)"

section \<open>The report as the specification describes it\<close>

text \<open>
  The definitions of this section follow the words of the specification (section 4.4 and
  section 4.3), not the code; the theorems below compare them with the code. A criterion is
  a name with a mapping \<open>{value, explanation}\<close>; it passes when its value is a string equal
  to \<^verbatim>\<open>yes\<close> up to letter case.
\<close>

definition is_mapping :: "json \<Rightarrow> bool" where
  "is_mapping x = (case x of JDict kvs \<Rightarrow> True | _ \<Rightarrow> False)"

definition field :: "json \<Rightarrow> string \<Rightarrow> json option" where
  "field x key = (case x of JDict kvs \<Rightarrow> map_of kvs key | _ \<Rightarrow> None)"

definition criterion_passes :: "json \<Rightarrow> bool" where
  "criterion_passes c = (case field c ''value'' of Some (JStr s) \<Rightarrow> py_lower s = ''yes'' | _ \<Rightarrow> False)"

definition spec_card :: "string \<times> json \<Rightarrow> event" where
  "spec_card kc =
     ItemCard (if criterion_passes (snd kc) then check_mark else cross_mark)
              (fst kc)
              (if criterion_passes (snd kc) then ''#0f766e'' else ''#b91c1c'')
              (case field (snd kc) ''explanation'' of Some x \<Rightarrow> py_str x | None \<Rightarrow> [])"

text \<open>The criteria of a part, when the payload has the part and it is a mapping.\<close>

definition part_items :: "json \<Rightarrow> string \<Rightarrow> (string \<times> json) list option" where
  "part_items data key = (case field data key of Some (JDict items) \<Rightarrow> Some items | _ \<Rightarrow> None)"

text \<open>A part is well formed when it is absent, or not a mapping, or a mapping whose
  criteria are all mappings.\<close>

definition part_ok :: "json \<Rightarrow> string \<times> string \<Rightarrow> bool" where
  "part_ok data p =
     (case part_items data (fst p) of
        Some items \<Rightarrow> list_all (\<lambda>kc. is_mapping (snd kc)) items
      | None \<Rightarrow> True)"

definition well_formed :: "variant \<Rightarrow> json \<Rightarrow> bool" where
  "well_formed v data = (is_mapping data \<and> list_all (part_ok data) (parts v))"

text \<open>The section of a part: its title and one card per criterion, up to the first
  criterion that is not a mapping; nothing for a part that is absent or not a mapping.\<close>

definition spec_part :: "json \<Rightarrow> string \<times> string \<Rightarrow> event list" where
  "spec_part data p =
     (case part_items data (fst p) of
        Some items \<Rightarrow> SectionCard (snd p) # map spec_card (takeWhile (\<lambda>kc. is_mapping (snd kc)) items)
      | None \<Rightarrow> [])"

text \<open>The overall grade: success for \<^verbatim>\<open>pass\<close>, failure for \<^verbatim>\<open>fail\<close>, and the neutral
  display of the raw value for anything else, an absent field included.\<close>

definition spec_grade :: "json option \<Rightarrow> event" where
  "spec_grade g =
     (case g of
        None \<Rightarrow> Info ''Final Grade: ''
      | Some (JStr s) \<Rightarrow>
          (if py_lower s = ''pass'' then Success ''Final Grade: PASS''
           else if py_lower s = ''fail'' then Error ''Final Grade: FAIL''
           else Info (''Final Grade: '' @ s))
      | Some x \<Rightarrow> Info (''Final Grade: '' @ py_str x))"

text \<open>The overall comments: the heading and the value when the field is present and not
  empty, nothing otherwise.\<close>

definition spec_comments :: "json option \<Rightarrow> event list" where
  "spec_comments c =
     (case c of
        None \<Rightarrow> []
      | Some x \<Rightarrow> if py_truthy x then [Markdown ''### Overall Comments'', Write x] else [])"

definition is_grade_event :: "event \<Rightarrow> bool" where
  "is_grade_event e = (case e of Success s \<Rightarrow> True | Error s \<Rightarrow> True | Info s \<Rightarrow> True | _ \<Rightarrow> False)"

definition is_card_event :: "event \<Rightarrow> bool" where
  "is_card_event e = (case e of SectionCard t \<Rightarrow> True | ItemCard b k c x \<Rightarrow> True | _ \<Rightarrow> False)"

definition is_remote_call :: "event \<Rightarrow> bool" where
  "is_remote_call e = (case e of RemoteCall k m t \<Rightarrow> True | _ \<Rightarrow> False)"

text \<open>
  The extraction policy of section 4.3, with success as the code tests it: a prioritised
  chain of candidates, the first one that succeeds wins, and the raw response is serialised
  when what the chain gives is not a string. A candidate succeeds when it is true in
  Python's sense (for a text: when it is not empty). The first candidate is what the scan
  of the output list found (nothing when the scan raised), the second the
  \<^verbatim>\<open>output_text\<close> field, the third the \<^verbatim>\<open>content\<close> field, which is taken as it is when the
  first two did not succeed.
\<close>

definition first_segment :: "pyval \<Rightarrow> pyval" where
  "first_segment response = (case scan_segments response of Inl e \<Rightarrow> PNone | Inr t \<Rightarrow> t)"

definition spec_extract :: "((string \<times> pyval) list \<Rightarrow> string) \<Rightarrow> pyval \<Rightarrow> exn + string" where
  "spec_extract dumps response =
     (case find truthy [first_segment response, getattr_default response ''output_text'' PNone] of
        Some (PStr s) \<Rightarrow> Inr s
      | Some x \<Rightarrow> serialise dumps response
      | None \<Rightarrow>
          (case getattr_default response ''content'' PNone of
             PStr s \<Rightarrow> Inr s
           | x \<Rightarrow> serialise dumps response))"


text \<open>
  A response of the expected shape: its output is a list of items; the content of an item
  that has one is a list of parts; every part has a type, and a text when the type is
  \<^verbatim>\<open>output_text\<close>. On such a response the scan finds, item by item, the text of the
  item's first \<^verbatim>\<open>output_text\<close> part, and stops at the first text that is not empty.
\<close>

definition is_output_text :: "pyval \<Rightarrow> bool" where
  "is_output_text c = (getattr c ''type'' = Some (PStr ''output_text''))"

definition part_shaped :: "pyval \<Rightarrow> bool" where
  "part_shaped c =
     (case getattr c ''type'' of
        None \<Rightarrow> False
      | Some t \<Rightarrow> if t = PStr ''output_text'' then getattr c ''text'' \<noteq> None else True)"

definition item_shaped :: "pyval \<Rightarrow> bool" where
  "item_shaped out =
     (case getattr out ''content'' of
        None \<Rightarrow> True
      | Some (PList cs) \<Rightarrow> list_all part_shaped cs
      | Some x \<Rightarrow> False)"

definition first_text_of_item :: "pyval \<Rightarrow> pyval option" where
  "first_text_of_item out =
     (case getattr out ''content'' of
        Some (PList cs) \<Rightarrow> (case find is_output_text cs of Some c \<Rightarrow> getattr c ''text'' | None \<Rightarrow> None)
      | _ \<Rightarrow> None)"

definition item_texts :: "pyval list \<Rightarrow> pyval list" where
  "item_texts outs = List.map_filter first_text_of_item outs"

section \<open>Facts about the built-ins\<close>

lemma py_strip_empty_iff: "py_strip s = [] \<longleftrightarrow> (\<forall>c \<in> set s. py_isspace c)"
proof
  assume "py_strip s = []"
  then have a: "\<forall>c \<in> set (dropWhile py_isspace s). py_isspace c"
    by (simp add: py_strip_def dropWhile_eq_Nil_conv)
  have "dropWhile py_isspace s = []"
  proof (rule ccontr)
    assume ne: "dropWhile py_isspace s \<noteq> []"
    then have "\<not> py_isspace (hd (dropWhile py_isspace s))" by (rule hd_dropWhile)
    moreover from ne have "hd (dropWhile py_isspace s) \<in> set (dropWhile py_isspace s)" by simp
    ultimately show False using a by blast
  qed
  then show "\<forall>c \<in> set s. py_isspace c" by (simp add: dropWhile_eq_Nil_conv)
next
  assume "\<forall>c \<in> set s. py_isspace c"
  then have d: "dropWhile py_isspace s = []" by (simp add: dropWhile_eq_Nil_conv)
  show "py_strip s = []" unfolding py_strip_def d by simp
qed

lemma py_lower_char_cases:
  "py_lower_char c = CHR ''y'' \<Longrightarrow> c = CHR ''y'' \<or> c = CHR ''Y''"
  "py_lower_char c = CHR ''p'' \<Longrightarrow> c = CHR ''p'' \<or> c = CHR ''P''"
  "py_lower_char c = CHR ''f'' \<Longrightarrow> c = CHR ''f'' \<or> c = CHR ''F''"
  by (simp_all add: py_lower_char_def split: if_splits)

lemma py_lower_word_hd:
  assumes "py_lower s = ''yes'' \<or> py_lower s = ''pass'' \<or> py_lower s = ''fail''"
  shows "\<exists>c cs. s = c # cs \<and> c \<in> set ''yYpPfF''"
proof (cases s)
  case Nil
  with assms show ?thesis by (simp add: py_lower_def)
next
  case (Cons c cs)
  with assms have "py_lower_char c = CHR ''y'' \<or> py_lower_char c = CHR ''p'' \<or> py_lower_char c = CHR ''f''"
    by (auto simp add: py_lower_def)
  then have "c \<in> set ''yYpPfF''" using py_lower_char_cases [of c] by auto
  with Cons show ?thesis by simp
qed

lemma digit_char_mem: "d < 10 \<Longrightarrow> digit_char d \<in> set ''0123456789''"
proof -
  assume "d < 10"
  then have "d \<in> {0, 1, 2, 3, 4, 5, 6, 7, 8, 9}" by auto
  then show ?thesis by (auto simp add: digit_char_def)
qed

lemma show_nat_digits: "show_nat n \<noteq> [] \<and> set (show_nat n) \<subseteq> set ''0123456789''"
proof (induction n rule: show_nat.induct)
  case (1 n)
  show ?case
  proof (cases "n < 10")
    case True
    then have "show_nat n = [digit_char n]" by (subst show_nat.simps) simp
    then show ?thesis using digit_char_mem [OF True] by simp
  next
    case False
    have d: "digit_char (n mod 10) \<in> set ''0123456789''" by (rule digit_char_mem) simp
    from False 1 have ih: "set (show_nat (n div 10)) \<subseteq> set ''0123456789''" by simp
    from False have "show_nat n = show_nat (n div 10) @ [digit_char (n mod 10)]"
      by (subst show_nat.simps) simp
    then show ?thesis using ih d by simp
  qed
qed

lemma show_nat_hd: "\<exists>c cs. show_nat n = c # cs \<and> c \<in> set ''0123456789''"
proof (cases "show_nat n")
  case Nil
  then show ?thesis using show_nat_digits [of n] by simp
next
  case (Cons c cs)
  then have "c \<in> set (show_nat n)" by simp
  then have "c \<in> set ''0123456789''" using show_nat_digits [of n] by blast
  with Cons show ?thesis by simp
qed

lemma float_str_finite_hd:
  "\<exists>c cs. float_str (Finite neg m decpt) = c # cs \<and> c \<in> set ''-0123456789''"
proof -
  obtain d ds where ds: "show_nat m = d # ds" and d: "d \<in> set ''0123456789''"
    using show_nat_hd [of m] by blast
  let ?body = "(if - 4 < decpt \<and> decpt \<le> 16 then
               (if decpt \<le> 0 then ''0.'' @ replicate (nat (- decpt)) CHR ''0'' @ (d # ds)
                else if int (length (d # ds)) \<le> decpt then (d # ds) @ replicate (nat (decpt - int (length (d # ds)))) CHR ''0'' @ ''.0''
                else take (nat decpt) (d # ds) @ ''.'' @ drop (nat decpt) (d # ds))
             else
               take 1 (d # ds) @ (if 1 < int (length (d # ds)) then ''.'' @ drop 1 (d # ds) else [])
                 @ ''e'' @ (if decpt - 1 < 0 then ''-'' else ''+'')
                 @ (let e = nat (abs (decpt - 1)) in (if e < 10 then ''0'' else []) @ show_nat e))"
  have body: "\<exists>c cs. ?body = c # cs \<and> c \<in> set ''0123456789''"
  proof (cases "- 4 < decpt \<and> decpt \<le> 16")
    case True
    show ?thesis
    proof (cases "decpt \<le> 0")
      case le: True
      with True show ?thesis by simp
    next
      case False
      then obtain k where k: "nat decpt = Suc k" by (cases "nat decpt") auto
      show ?thesis using True False d k by auto
    qed
  next
    case False
    then show ?thesis using d by auto
  qed
  have eq: "float_str (Finite neg m decpt) = (if neg then ''-'' else []) @ ?body"
    by (simp add: ds Let_def)
  show ?thesis
  proof (cases neg)
    case True
    then show ?thesis unfolding eq by simp
  next
    case False
    from body obtain c cs where "?body = c # cs" and "c \<in> set ''0123456789''" by blast
    then show ?thesis unfolding eq using False by auto
  qed
qed

lemma py_str_word_is_string:
  assumes "py_lower (py_str v) = ''yes'' \<or> py_lower (py_str v) = ''pass'' \<or> py_lower (py_str v) = ''fail''"
  shows "\<exists>s. v = JStr s"
proof (cases v)
  case JNull
  with assms show ?thesis by (simp add: py_lower_def py_lower_char_def)
next
  case (JBool b)
  with assms show ?thesis by (cases b) (simp_all add: py_lower_def py_lower_char_def)
next
  case (JInt i)
  obtain c cs where s: "py_str v = c # cs" and c: "c \<in> set ''yYpPfF''"
    using py_lower_word_hd [OF assms] by blast
  obtain d ds where "show_nat (nat (if i < 0 then - i else i)) = d # ds" and "d \<in> set ''0123456789''"
    using show_nat_hd by blast
  with JInt s c show ?thesis by (auto split: if_splits)
next
  case (JFloat f)
  obtain c cs where s: "py_str v = c # cs" and c: "c \<in> set ''yYpPfF''"
    using py_lower_word_hd [OF assms] by blast
  show ?thesis
  proof (cases f)
    case (Finite neg m decpt)
    obtain d ds where "float_str (Finite neg m decpt) = d # ds" and "d \<in> set ''-0123456789''"
      using float_str_finite_hd by blast
    with JFloat Finite s c show ?thesis by auto
  next
    case (Infinite neg)
    with JFloat s c show ?thesis by (cases neg) auto
  next
    case NaN
    with JFloat s c show ?thesis by auto
  qed
next
  case (JStr s)
  then show ?thesis by simp
next
  case (JList xs)
  obtain c cs where s: "py_str v = c # cs" and c: "c \<in> set ''yYpPfF''"
    using py_lower_word_hd [OF assms] by blast
  with JList show ?thesis by auto
next
  case (JDict kvs)
  obtain c cs where s: "py_str v = c # cs" and c: "c \<in> set ''yYpPfF''"
    using py_lower_word_hd [OF assms] by blast
  with JDict show ?thesis by auto
qed

section \<open>The code renders what the specification describes\<close>

lemma py_str_yes_iff:
  "py_lower (py_str x) = ''yes'' \<longleftrightarrow> (\<exists>s. x = JStr s \<and> py_lower s = ''yes'')"
  using py_str_word_is_string [of x] by auto

lemma item_card_mapping: "item_card key (JDict kv) = Inr (spec_card (key, JDict kv))"
proof (cases "map_of kv ''value''")
  case None
  have "py_lower ''no'' \<noteq> ''yes''" by (simp add: py_lower_def py_lower_char_def)
  with None show ?thesis
    by (simp add: item_card_def spec_card_def criterion_passes_def field_def split: option.splits)
next
  case (Some x)
  show ?thesis
  proof (cases "\<exists>s. x = JStr s")
    case True
    with Some show ?thesis
      by (auto simp add: item_card_def spec_card_def criterion_passes_def field_def split: option.splits)
  next
    case False
    then have "py_lower (py_str x) \<noteq> ''yes''" using py_str_yes_iff [of x] by simp
    moreover from False have "(case x of JStr s \<Rightarrow> py_lower s = ''yes'' | _ \<Rightarrow> False) = False"
      by (cases x) simp_all
    ultimately show ?thesis using Some
      by (simp add: item_card_def spec_card_def criterion_passes_def field_def split: option.splits)
  qed
qed

lemma item_card_not_mapping: "\<not> is_mapping c \<Longrightarrow> item_card key c = Inl AttributeError"
  by (cases c) (simp_all add: item_card_def is_mapping_def)

lemma render_items_eq:
  "render_items items =
     (map spec_card (takeWhile (\<lambda>kc. is_mapping (snd kc)) items),
      if list_all (\<lambda>kc. is_mapping (snd kc)) items then None else Some AttributeError)"
proof (induction items)
  case Nil
  show ?case by simp
next
  case (Cons kc items)
  obtain key c where kc: "kc = (key, c)" by (cases kc)
  show ?case
  proof (cases "is_mapping c")
    case True
    then obtain kv where c: "c = JDict kv" by (cases c) (simp_all add: is_mapping_def)
    show ?thesis using Cons True by (simp add: kc c item_card_mapping)
  next
    case False
    then show ?thesis by (simp add: kc item_card_not_mapping)
  qed
qed

lemma render_part_eq:
  "render_part (JDict d) p = (spec_part (JDict d) p, if part_ok (JDict d) p then None else Some AttributeError)"
proof (cases "map_of d (fst p)")
  case None
  then show ?thesis by (simp add: render_part_def spec_part_def part_ok_def part_items_def field_def)
next
  case (Some x)
  then show ?thesis
    by (cases x) (simp_all add: render_part_def spec_part_def part_ok_def part_items_def field_def render_items_eq)
qed

lemma render_part_not_mapping: "\<not> is_mapping data \<Longrightarrow> render_part data p = ([], Some AttributeError)"
  by (cases data) (simp_all add: render_part_def is_mapping_def)

text \<open>The events of a list of parts, up to and including the first part that is not well formed.\<close>

lemma render_parts_eq:
  "render_parts (JDict d) ps =
     (concat (map (spec_part (JDict d)) (takeWhile (part_ok (JDict d)) ps))
        @ (case dropWhile (part_ok (JDict d)) ps of [] \<Rightarrow> [] | p # rest \<Rightarrow> spec_part (JDict d) p),
      if list_all (part_ok (JDict d)) ps then None else Some AttributeError)"
proof (induction ps)
  case Nil
  show ?case by simp
next
  case (Cons p ps)
  show ?case
  proof (cases "part_ok (JDict d) p")
    case True
    then show ?thesis using Cons by (simp add: render_part_eq)
  next
    case False
    then show ?thesis by (simp add: render_part_eq)
  qed
qed

lemma render_parts_well_formed:
  "list_all (part_ok (JDict d)) ps \<Longrightarrow>
   render_parts (JDict d) ps = (concat (map (spec_part (JDict d)) ps), None)"
proof -
  assume a: "list_all (part_ok (JDict d)) ps"
  then have tw: "takeWhile (part_ok (JDict d)) ps = ps" and dw: "dropWhile (part_ok (JDict d)) ps = []"
    by (simp_all add: list_all_iff)
  show ?thesis unfolding render_parts_eq tw dw using a by simp
qed

lemma final_grade_banner_eq: "final_grade_banner (JDict d) = Inr (spec_grade (map_of d ''final_grade''))"
proof (cases "map_of d ''final_grade''")
  case None
  have "py_lower [] \<noteq> ''pass''" "py_lower [] \<noteq> ''fail''" by (simp_all add: py_lower_def)
  with None show ?thesis by (simp add: final_grade_banner_def spec_grade_def)
next
  case (Some x)
  show ?thesis
  proof (cases "\<exists>s. x = JStr s")
    case True
    with Some show ?thesis by (auto simp add: final_grade_banner_def spec_grade_def)
  next
    case False
    then have "py_lower (py_str x) \<noteq> ''pass''" "py_lower (py_str x) \<noteq> ''fail''"
      using py_str_word_is_string [of x] by auto
    moreover from False have "spec_grade (Some x) = Info (''Final Grade: '' @ py_str x)"
      by (cases x) (simp_all add: spec_grade_def)
    ultimately show ?thesis using Some by (simp add: final_grade_banner_def)
  qed
qed

lemma overall_comments_eq: "overall_comments (JDict d) = Inr (spec_comments (map_of d ''overall_comments''))"
  by (simp add: overall_comments_def spec_comments_def split: option.splits)

lemma parts_nonempty: "parts v \<noteq> []"
  by (cases v) simp_all

lemma render_structured_well_formed:
  assumes "well_formed v data"
  shows "render_structured v data =
           (concat (map (spec_part data) (parts v))
              @ [spec_grade (field data ''final_grade'')]
              @ spec_comments (field data ''overall_comments''), None)"
proof -
  from assms obtain d where d: "data = JDict d" by (cases data) (simp_all add: well_formed_def is_mapping_def)
  from assms have ok: "list_all (part_ok (JDict d)) (parts v)" by (simp add: well_formed_def d)
  show ?thesis
    by (simp add: d render_structured_def render_parts_well_formed [OF ok]
        final_grade_banner_eq overall_comments_eq field_def)
qed

lemma render_parts_not_mapping:
  assumes "\<not> is_mapping data" and "ps \<noteq> []"
  shows "render_parts data ps = ([], Some AttributeError)"
proof -
  from assms(2) obtain p rest where "ps = p # rest" by (cases ps) auto
  then show ?thesis using assms(1) by (simp add: render_part_not_mapping)
qed

lemma spec_card_is_card: "is_card_event (spec_card kc)"
  by (simp add: spec_card_def is_card_event_def)

lemma spec_part_cards: "list_all is_card_event (spec_part data p)"
proof (cases "part_items data (fst p)")
  case None
  then show ?thesis by (simp add: spec_part_def)
next
  case (Some items)
  have "is_card_event (SectionCard (snd p))" by (simp add: is_card_event_def)
  then show ?thesis using Some by (simp add: spec_part_def list_all_iff spec_card_is_card)
qed

lemma render_structured_malformed:
  assumes "\<not> well_formed v data"
  shows "\<exists>evs. render_structured v data = (evs, Some AttributeError) \<and> list_all is_card_event evs"
proof (cases "is_mapping data")
  case False
  then show ?thesis
    by (simp add: render_structured_def render_parts_not_mapping [OF False parts_nonempty])
next
  case True
  then obtain d where d: "data = JDict d" by (cases data) (simp_all add: is_mapping_def)
  from assms True have bad: "\<not> list_all (part_ok (JDict d)) (parts v)" by (simp add: well_formed_def d)
  let ?evs = "concat (map (spec_part (JDict d)) (takeWhile (part_ok (JDict d)) (parts v)))
        @ (case dropWhile (part_ok (JDict d)) (parts v) of [] \<Rightarrow> [] | p # rest \<Rightarrow> spec_part (JDict d) p)"
  have "render_structured v data = (?evs, Some AttributeError)"
    using bad by (simp add: d render_structured_def render_parts_eq)
  moreover have "list_all is_card_event ?evs"
    using spec_part_cards by (auto simp add: list_all_iff split: list.splits)
  ultimately show ?thesis by blast
qed

lemma render_report_well_formed:
  assumes "well_formed v data"
  shows "render_report v result (Inr data) =
           concat (map (spec_part data) (parts v))
             @ [spec_grade (field data ''final_grade'')]
             @ spec_comments (field data ''overall_comments'')"
  by (simp add: render_report_def render_structured_well_formed [OF assms])

lemma render_report_malformed:
  assumes "\<not> well_formed v data"
  shows "\<exists>evs. render_structured v data = (evs, Some AttributeError)
           \<and> list_all is_card_event evs
           \<and> render_report v result (Inr data) = evs @ fallback result"
proof -
  from render_structured_malformed [OF assms] obtain evs
    where "render_structured v data = (evs, Some AttributeError)" and "list_all is_card_event evs"
    by blast
  then show ?thesis by (simp add: render_report_def)
qed

lemma spec_parts_cards: "list_all is_card_event (concat (map (spec_part data) ps))"
  using spec_part_cards by (auto simp add: list_all_iff)

lemma card_not_grade: "is_card_event e \<Longrightarrow> \<not> is_grade_event e"
  by (cases e) (simp_all add: is_card_event_def is_grade_event_def)

lemma filter_grade_cards: "list_all is_card_event evs \<Longrightarrow> filter is_grade_event evs = []"
  by (induction evs) (simp_all add: card_not_grade)

lemma spec_grade_is_grade: "is_grade_event (spec_grade g)"
proof (cases g)
  case None
  then show ?thesis by (simp add: spec_grade_def is_grade_event_def)
next
  case (Some x)
  then show ?thesis by (cases x) (simp_all add: spec_grade_def is_grade_event_def)
qed

lemma filter_grade_comments: "filter is_grade_event (spec_comments c) = []"
  by (simp add: spec_comments_def is_grade_event_def split: option.splits)

lemma filter_grade_fallback: "filter is_grade_event (fallback result) = []"
  by (simp add: fallback_def is_grade_event_def)

lemma grade_events_of_report:
  "filter is_grade_event (render_report v result (Inr data)) =
     (if well_formed v data then [spec_grade (field data ''final_grade'')] else [])"
proof (cases "well_formed v data")
  case True
  then show ?thesis
    by (simp add: render_report_well_formed filter_grade_cards [OF spec_parts_cards]
        spec_grade_is_grade filter_grade_comments)
next
  case False
  from render_report_malformed [OF False, of result] obtain evs
    where "list_all is_card_event evs" and "render_report v result (Inr data) = evs @ fallback result"
    by blast
  then show ?thesis using False by (simp add: filter_grade_cards filter_grade_fallback)
qed

lemma takeWhile_list_all: "list_all P xs \<Longrightarrow> takeWhile P xs = xs"
  by (induction xs) simp_all

lemma scan_content_shaped:
  "list_all part_shaped cs \<Longrightarrow>
   scan_content cs = Inr (case find is_output_text cs of Some c \<Rightarrow> getattr c ''text'' | None \<Rightarrow> None)"
proof (induction cs)
  case Nil
  show ?case by simp
next
  case (Cons c cs)
  from Cons.prems have c: "part_shaped c" and cs: "list_all part_shaped cs" by simp_all
  from c obtain t where t: "getattr c ''type'' = Some t"
    by (cases "getattr c ''type''") (simp_all add: part_shaped_def)
  show ?case
  proof (cases "t = PStr ''output_text''")
    case True
    with c t obtain x where "getattr c ''text'' = Some x"
      by (cases "getattr c ''text''") (simp_all add: part_shaped_def)
    with True t show ?thesis by (simp add: is_output_text_def)
  next
    case False
    with t Cons.IH [OF cs] show ?thesis by (simp add: is_output_text_def)
  qed
qed

lemma scan_item_shaped:
  "item_shaped out \<Longrightarrow>
   scan_item t out = Inr (case first_text_of_item out of Some x \<Rightarrow> x | None \<Rightarrow> t)"
proof (cases "getattr out ''content''")
  case None
  then show ?thesis by (simp add: scan_item_def first_text_of_item_def)
next
  case (Some content)
  assume sh: "item_shaped out"
  with Some obtain cs where cs: "content = PList cs" and ps: "list_all part_shaped cs"
    by (cases content) (simp_all add: item_shaped_def)
  show ?thesis
    by (simp add: scan_item_def first_text_of_item_def Some cs scan_content_shaped [OF ps]
        split: option.splits)
qed

lemma item_texts_None: "first_text_of_item out = None \<Longrightarrow> item_texts (out # outs) = item_texts outs"
  by (simp add: item_texts_def List.map_filter_simps)

lemma item_texts_Some:
  "first_text_of_item out = Some x \<Longrightarrow> item_texts (out # outs) = x # item_texts outs"
  by (simp add: item_texts_def List.map_filter_simps)

lemma scan_output_shaped:
  "list_all item_shaped outs \<Longrightarrow> \<not> truthy t \<Longrightarrow>
   scan_output t outs =
     Inr (case find truthy (item_texts outs) of Some x \<Rightarrow> x | None \<Rightarrow> last (t # item_texts outs))"
proof (induction outs arbitrary: t)
  case Nil
  show ?case by (simp add: item_texts_def List.map_filter_simps)
next
  case (Cons out outs)
  from Cons.prems have sh: "item_shaped out" and shs: "list_all item_shaped outs" by simp_all
  show ?case
  proof (cases "first_text_of_item out")
    case None
    with Cons.IH [OF shs Cons.prems(2)] Cons.prems(2) show ?thesis
      unfolding item_texts_None [OF None] by (simp add: scan_item_shaped [OF sh])
  next
    case (Some x)
    show ?thesis
    proof (cases "truthy x")
      case True
      with Some show ?thesis
        unfolding item_texts_Some [OF Some] by (simp add: scan_item_shaped [OF sh])
    next
      case False
      with Some Cons.IH [OF shs False] show ?thesis
        unfolding item_texts_Some [OF Some]
        by (simp add: scan_item_shaped [OF sh] split: option.split)
    qed
  qed
qed

lemma first_segment_shaped:
  assumes "getattr response ''output'' = Some (PList outs)" and "list_all item_shaped outs"
  shows "first_segment response =
           (case find truthy (item_texts outs) of Some x \<Rightarrow> x | None \<Rightarrow> last (PNone # item_texts outs))"
proof -
  have "py_iter (py_or (PList outs) (PList [])) = Inr outs"
    by (cases outs) (simp_all add: py_or_def)
  then have "scan_segments response = scan_output PNone outs"
    using assms(1) by (simp add: scan_segments_def getattr_default_def)
  then show ?thesis
    using scan_output_shaped [OF assms(2), of PNone] by (simp add: first_segment_def)
qed

lemma extract_text_chain: "extract_text dumps response = spec_extract dumps response"
proof (cases "scan_segments response")
  case (Inl e)
  show ?thesis
  proof (cases "truthy (getattr_default response ''output_text'' PNone)")
    case True
    with Inl show ?thesis
      by (simp add: extract_text_def spec_extract_def first_segment_def try_extract_def py_or_def)
  next
    case False
    with Inl show ?thesis
      by (simp add: extract_text_def spec_extract_def first_segment_def try_extract_def py_or_def)
  qed
next
  case (Inr t)
  show ?thesis
  proof (cases "truthy t")
    case True
    with Inr show ?thesis
      by (simp add: extract_text_def spec_extract_def first_segment_def try_extract_def
          split: option.splits)
  next
    case False
    show ?thesis
    proof (cases "getattr response ''output_text''")
      case None
      with Inr False show ?thesis
        by (simp add: extract_text_def spec_extract_def first_segment_def try_extract_def
            py_or_def getattr_default_def)
    next
      case (Some x)
      with Inr False show ?thesis
        by (cases "truthy x")
          (simp_all add: extract_text_def spec_extract_def first_segment_def try_extract_def
            py_or_def getattr_default_def)
    qed
  qed
qed



section \<open>The claims\<close>

text \<open>
  C3. When \<^verbatim>\<open>json.loads\<close> raises on the text that \<^verbatim>\<open>call_agent\<close> returned, the report is the
  fallback alone: the warning and the unparsed text as it is. Nothing of a structured
  report is displayed, and the handler shows no error: after the call and the subheader it
  displays exactly these two elements.
\<close>

theorem invalid_json_raw_text:
  assumes "loads result = Inl e"
    and "agent api_key model user_text = Inr result"
    and "py_strip user_text \<noteq> []"
    and "\<not> no_credential v api_key env"
  shows "render_report v result (loads result) =
           [Warning ''Could not parse the evaluation into sections. Showing compact text.'',
            Write (JStr result)]
       \<and> run_handler v agent loads api_key env model user_text =
           [RemoteCall api_key model user_text, Subheader ''Result'',
            Warning ''Could not parse the evaluation into sections. Showing compact text.'',
            Write (JStr result)]"
  using assms by (simp add: run_handler_def render_report_def fallback_def)

theorem invalid_json_raw_text_witness:
  "(\<lambda>s. Inl JSONDecodeError :: exn + json) ''I cannot grade this.'' = Inl JSONDecodeError
   \<and> (\<lambda>k m t. Inr ''I cannot grade this.'' :: string + string) ''sk-test'' ''gpt-5-nano'' (ascii ''My analysis'')
        = Inr ''I cannot grade this.''
   \<and> py_strip (ascii ''My analysis'') \<noteq> []
   \<and> \<not> no_credential Ecosystem ''sk-test'' Map.empty
   \<and> render_report Ecosystem ''I cannot grade this.'' (Inl JSONDecodeError) =
           [Warning ''Could not parse the evaluation into sections. Showing compact text.'',
            Write (JStr ''I cannot grade this.'')]
   \<and> run_handler Ecosystem (\<lambda>k m t. Inr ''I cannot grade this.'') (\<lambda>s. Inl JSONDecodeError)
         ''sk-test'' Map.empty ''gpt-5-nano'' (ascii ''My analysis'') =
           [RemoteCall ''sk-test'' ''gpt-5-nano'' (ascii ''My analysis''), Subheader ''Result'',
            Warning ''Could not parse the evaluation into sections. Showing compact text.'',
            Write (JStr ''I cannot grade this.'')]"
proof -
  have h3: "py_strip (ascii ''My analysis'') \<noteq> []"
    by (simp add: py_strip_def py_isspace_def ascii_def)
  have h4: "\<not> no_credential Ecosystem ''sk-test'' Map.empty" by (simp add: no_credential_def)
  show ?thesis
    using invalid_json_raw_text [where loads = "\<lambda>s. Inl JSONDecodeError" and result = "''I cannot grade this.''"
        and e = JSONDecodeError and agent = "\<lambda>k m t. Inr ''I cannot grade this.''"
        and api_key = "''sk-test''" and model = "''gpt-5-nano''" and user_text = "ascii ''My analysis''"
        and v = Ecosystem and env = Map.empty, OF _ _ h3 h4] h3 h4
    by simp
qed

text \<open>
  C9. A rendered criterion (its entry is a mapping) gets the green check badge exactly when
  its \<^verbatim>\<open>value\<close> field, converted to a string and lowercased, equals \<^verbatim>\<open>yes\<close>: that is,
  exactly when the field is present and is a string equal to \<^verbatim>\<open>yes\<close> up to letter case
  (\<^verbatim>\<open>Yes\<close> and \<^verbatim>\<open>YES\<close> pass). Every other value, and a missing \<^verbatim>\<open>value\<close> key, which
  defaults to \<^verbatim>\<open>no\<close>, gets the red cross badge.
\<close>

theorem criterion_badge_green_iff_yes:
  "\<exists>badge color expl.
      item_card key (JDict kv) = Inr (ItemCard badge key color expl)
    \<and> (badge = check_mark \<or> badge = cross_mark)
    \<and> (badge = check_mark) =
        (py_lower (py_str (case map_of kv ''value'' of Some x \<Rightarrow> x | None \<Rightarrow> JStr ''no'')) = ''yes'')
    \<and> (badge = check_mark) = (\<exists>s. map_of kv ''value'' = Some (JStr s) \<and> py_lower s = ''yes'')
    \<and> check_mark \<noteq> cross_mark
    \<and> py_lower ''Yes'' = ''yes'' \<and> py_lower ''YES'' = ''yes''
    \<and> item_card ''Q1'' (JDict [(''explanation'', JStr ''ok'')])
          = Inr (ItemCard cross_mark ''Q1'' ''#b91c1c'' ''ok'')"
proof -
  have ne: "check_mark \<noteq> cross_mark" by (simp add: check_mark_def cross_mark_def)
  have lo: "py_lower ''Yes'' = ''yes'' \<and> py_lower ''YES'' = ''yes''"
    by (simp add: py_lower_def py_lower_char_def)
  have ex: "item_card ''Q1'' (JDict [(''explanation'', JStr ''ok'')])
          = Inr (ItemCard cross_mark ''Q1'' ''#b91c1c'' ''ok'')"
    by (simp add: item_card_def py_lower_def py_lower_char_def)
  let ?x = "case map_of kv ''value'' of Some x \<Rightarrow> x | None \<Rightarrow> JStr ''no''"
  let ?ok = "py_lower (py_str ?x) = ''yes''"
  let ?badge = "if ?ok then check_mark else cross_mark"
  have no: "py_lower ''no'' \<noteq> ''yes''" by (simp add: py_lower_def py_lower_char_def)
  have iff: "?ok = (\<exists>s. map_of kv ''value'' = Some (JStr s) \<and> py_lower s = ''yes'')"
  proof (cases "map_of kv ''value''")
    case None
    then show ?thesis using no by simp
  next
    case (Some x)
    then show ?thesis using py_str_yes_iff [of x] by simp
  qed
  have card: "item_card key (JDict kv) =
      Inr (ItemCard ?badge key (if ?ok then ''#0f766e'' else ''#b91c1c'')
             (py_str (case map_of kv ''explanation'' of Some x \<Rightarrow> x | None \<Rightarrow> JStr [])))"
    by (simp add: item_card_def Let_def)
  have b1: "?badge = check_mark \<or> ?badge = cross_mark" by simp
  have b2: "(?badge = check_mark) = ?ok" using ne by auto
  show ?thesis using card b1 b2 iff ne lo ex by blast
qed

text \<open>
  C1. The grade shown is the payload's \<^verbatim>\<open>final_grade\<close> field and nothing else: the grade
  banners of a report are either none (the structured rendering stopped before the banner)
  or the one banner that the field alone determines. So a payload whose \<^verbatim>\<open>final_grade\<close> is
  \<^verbatim>\<open>fail\<close> is never shown as PASS, and one whose \<^verbatim>\<open>final_grade\<close> is \<^verbatim>\<open>pass\<close> is never
  shown as FAIL, whatever its criteria say.
\<close>

theorem final_grade_shown_is_payload_field:
  "filter is_grade_event (render_report v result (Inr data)) =
     (if well_formed v data then [spec_grade (field data ''final_grade'')] else [])
   \<and> (field data ''final_grade'' = Some (JStr s) \<and> py_lower s = ''fail''
        \<longrightarrow> Success ''Final Grade: PASS'' \<notin> set (render_report v result (Inr data)))
   \<and> (field data ''final_grade'' = Some (JStr s) \<and> py_lower s = ''pass''
        \<longrightarrow> Error ''Final Grade: FAIL'' \<notin> set (render_report v result (Inr data)))"
proof -
  let ?evs = "render_report v result (Inr data)"
  have g: "filter is_grade_event ?evs =
     (if well_formed v data then [spec_grade (field data ''final_grade'')] else [])"
    by (rule grade_events_of_report)
  have mem: "\<And>e. is_grade_event e \<Longrightarrow> e \<in> set ?evs \<Longrightarrow> e = spec_grade (field data ''final_grade'')"
  proof -
    fix e assume "is_grade_event e" and "e \<in> set ?evs"
    then have "e \<in> set (filter is_grade_event ?evs)" by simp
    then show "e = spec_grade (field data ''final_grade'')"
      unfolding g by (simp split: if_splits)
  qed
  have a: "field data ''final_grade'' = Some (JStr s) \<and> py_lower s = ''fail''
        \<longrightarrow> Success ''Final Grade: PASS'' \<notin> set ?evs"
  proof (intro impI notI)
    assume f: "field data ''final_grade'' = Some (JStr s) \<and> py_lower s = ''fail''"
      and m: "Success ''Final Grade: PASS'' \<in> set ?evs"
    have "is_grade_event (Success ''Final Grade: PASS'')" by (simp add: is_grade_event_def)
    from mem [OF this m] f show False by (simp add: spec_grade_def)
  qed
  have b: "field data ''final_grade'' = Some (JStr s) \<and> py_lower s = ''pass''
        \<longrightarrow> Error ''Final Grade: FAIL'' \<notin> set ?evs"
  proof (intro impI notI)
    assume f: "field data ''final_grade'' = Some (JStr s) \<and> py_lower s = ''pass''"
      and m: "Error ''Final Grade: FAIL'' \<in> set ?evs"
    have "is_grade_event (Error ''Final Grade: FAIL'')" by (simp add: is_grade_event_def)
    from mem [OF this m] f show False by (simp add: spec_grade_def)
  qed
  from g a b show ?thesis by blast
qed

theorem final_grade_shown_is_payload_field_witness:
  "field (JDict [(''part1_complementors_intermediaries'',
                    JDict [(''Are key complementors and intermediaries identified?'',
                            JDict [(''value'', JStr ''yes''), (''explanation'', JStr ''All named.'')])]),
                 (''part2_mve'',
                    JDict [(''Is the minimal viable ecosystem defined?'',
                            JDict [(''value'', JStr ''yes''), (''explanation'', JStr ''Clear.'')])]),
                 (''final_grade'', JStr ''fail''),
                 (''overall_comments'', JStr [])]) ''final_grade'' = Some (JStr ''fail'')
   \<and> py_lower ''fail'' = ''fail''
   \<and> filter is_grade_event
        (render_report Ecosystem ''the payload text''
           (Inr (JDict [(''part1_complementors_intermediaries'',
                    JDict [(''Are key complementors and intermediaries identified?'',
                            JDict [(''value'', JStr ''yes''), (''explanation'', JStr ''All named.'')])]),
                 (''part2_mve'',
                    JDict [(''Is the minimal viable ecosystem defined?'',
                            JDict [(''value'', JStr ''yes''), (''explanation'', JStr ''Clear.'')])]),
                 (''final_grade'', JStr ''fail''),
                 (''overall_comments'', JStr [])])))
       = [Error ''Final Grade: FAIL'']
   \<and> Success ''Final Grade: PASS'' \<notin> set
        (render_report Ecosystem ''the payload text''
           (Inr (JDict [(''part1_complementors_intermediaries'',
                    JDict [(''Are key complementors and intermediaries identified?'',
                            JDict [(''value'', JStr ''yes''), (''explanation'', JStr ''All named.'')])]),
                 (''part2_mve'',
                    JDict [(''Is the minimal viable ecosystem defined?'',
                            JDict [(''value'', JStr ''yes''), (''explanation'', JStr ''Clear.'')])]),
                 (''final_grade'', JStr ''fail''),
                 (''overall_comments'', JStr [])])))"
  (is "?f \<and> ?l \<and> ?g \<and> ?n")
proof -
  let ?P = "JDict [(''part1_complementors_intermediaries'',
                    JDict [(''Are key complementors and intermediaries identified?'',
                            JDict [(''value'', JStr ''yes''), (''explanation'', JStr ''All named.'')])]),
                 (''part2_mve'',
                    JDict [(''Is the minimal viable ecosystem defined?'',
                            JDict [(''value'', JStr ''yes''), (''explanation'', JStr ''Clear.'')])]),
                 (''final_grade'', JStr ''fail''),
                 (''overall_comments'', JStr [])]"
  have f: ?f by (simp add: field_def)
  have l: ?l by (simp add: py_lower_def py_lower_char_def)
  have w: "well_formed Ecosystem ?P"
    by (simp add: well_formed_def is_mapping_def part_ok_def part_items_def field_def)
  note t = final_grade_shown_is_payload_field
    [where v = Ecosystem and result = "''the payload text''" and data = ?P and s = "''fail''"]
  from t w l have g: ?g by (simp add: spec_grade_def field_def)
  from t f l have n: ?n by blast
  from f l g n show ?thesis by blast
qed

text \<open>
  C2, as stated for every parsed payload, fails. A payload whose \<^verbatim>\<open>final_grade\<close> is
  \<^verbatim>\<open>pass\<close> but whose first part holds a criterion that is a bare string gets no success
  indicator: rendering stops in that part and shows the fallback. And on a payload that is
  not a JSON object (the list \<^verbatim>\<open>[]\<close>) the lookup \<^verbatim>\<open>data.get\<close> of the grade step raises.
\<close>

theorem grade_banner_counterexample:
  "field (JDict [(''part1_interactions_actors'',
                    JDict [(''Are the core platform interactions described clearly?'', JStr ''yes'')]),
                 (''final_grade'', JStr ''pass'')]) ''final_grade'' = Some (JStr ''pass'')
   \<and> render_report Platform ''the payload text''
         (Inr (JDict [(''part1_interactions_actors'',
                         JDict [(''Are the core platform interactions described clearly?'', JStr ''yes'')]),
                      (''final_grade'', JStr ''pass'')]))
       = [SectionCard (''Part 1 '' @ em_dash @ '' Core Interactions and Actors''),
          Warning ''Could not parse the evaluation into sections. Showing compact text.'',
          Write (JStr ''the payload text'')]
   \<and> final_grade_banner (JList []) = Inl AttributeError
   \<and> render_report Platform ''[]'' (Inr (JList []))
       = [Warning ''Could not parse the evaluation into sections. Showing compact text.'',
          Write (JStr ''[]'')]"
  by (simp add: field_def render_report_def render_structured_def render_part_def item_card_def
      final_grade_banner_def fallback_def)

text \<open>
  C2, amended. On every payload that is a JSON object the grade step never raises and
  displays what the specification describes: success for a string equal to \<^verbatim>\<open>pass\<close> up
  to letter case, failure for one equal to \<^verbatim>\<open>fail\<close>, and the neutral display of the raw
  value for anything else, an absent field included. When the payload is well formed (an
  object whose mapping-valued parts hold only mapping-valued criteria), so that rendering
  reaches the step, this banner is the one grade display of the report.
\<close>

theorem grade_banner_of_object:
  "final_grade_banner (JDict d) = Inr (spec_grade (map_of d ''final_grade''))
   \<and> (well_formed v data \<longrightarrow>
        filter is_grade_event (render_report v result (Inr data))
          = [spec_grade (field data ''final_grade'')]
        \<and> final_grade_banner data = Inr (spec_grade (field data ''final_grade'')))
   \<and> (py_lower s = ''pass'' \<longrightarrow> spec_grade (Some (JStr s)) = Success ''Final Grade: PASS'')
   \<and> (py_lower s = ''fail'' \<longrightarrow> spec_grade (Some (JStr s)) = Error ''Final Grade: FAIL'')
   \<and> (py_lower s \<noteq> ''pass'' \<and> py_lower s \<noteq> ''fail''
        \<longrightarrow> spec_grade (Some (JStr s)) = Info (''Final Grade: '' @ s))
   \<and> ((\<forall>t. x \<noteq> JStr t) \<longrightarrow> spec_grade (Some x) = Info (''Final Grade: '' @ py_str x))
   \<and> spec_grade None = Info ''Final Grade: ''"
proof -
  have a: "final_grade_banner (JDict d) = Inr (spec_grade (map_of d ''final_grade''))"
    by (rule final_grade_banner_eq)
  have b: "well_formed v data \<longrightarrow>
        filter is_grade_event (render_report v result (Inr data))
          = [spec_grade (field data ''final_grade'')]
        \<and> final_grade_banner data = Inr (spec_grade (field data ''final_grade''))"
  proof
    assume w: "well_formed v data"
    then obtain d' where d': "data = JDict d'"
      by (cases data) (simp_all add: well_formed_def is_mapping_def)
    have "final_grade_banner data = Inr (spec_grade (field data ''final_grade''))"
      by (simp add: d' final_grade_banner_eq field_def)
    then show "filter is_grade_event (render_report v result (Inr data))
          = [spec_grade (field data ''final_grade'')]
        \<and> final_grade_banner data = Inr (spec_grade (field data ''final_grade''))"
      using w by (simp add: grade_events_of_report)
  qed
  have c: "(\<forall>t. x \<noteq> JStr t) \<longrightarrow> spec_grade (Some x) = Info (''Final Grade: '' @ py_str x)"
    by (cases x) (simp_all add: spec_grade_def)
  show ?thesis using a b c by (simp add: spec_grade_def)
qed

theorem grade_banner_of_object_witness:
  "well_formed Platform
     (JDict [(''part1_interactions_actors'',
                JDict [(''Are the core platform interactions described clearly?'',
                        JDict [(''value'', JStr ''no''), (''explanation'', JStr ''Missing.'')])]),
             (''final_grade'', JStr ''Pass'')])
   \<and> py_lower ''Pass'' = ''pass''
   \<and> filter is_grade_event
        (render_report Platform ''the payload text''
          (Inr (JDict [(''part1_interactions_actors'',
                JDict [(''Are the core platform interactions described clearly?'',
                        JDict [(''value'', JStr ''no''), (''explanation'', JStr ''Missing.'')])]),
             (''final_grade'', JStr ''Pass'')])))
       = [Success ''Final Grade: PASS'']
   \<and> py_lower ''fail'' = ''fail''
   \<and> spec_grade (Some (JStr ''fail'')) = Error ''Final Grade: FAIL''
   \<and> py_lower ''maybe'' \<noteq> ''pass'' \<and> py_lower ''maybe'' \<noteq> ''fail''
   \<and> spec_grade (Some (JStr ''maybe'')) = Info ''Final Grade: maybe''
   \<and> spec_grade (Some JNull) = Info ''Final Grade: None''"
  (is "?w \<and> ?l \<and> ?g \<and> ?rest")
proof -
  let ?P = "JDict [(''part1_interactions_actors'',
                JDict [(''Are the core platform interactions described clearly?'',
                        JDict [(''value'', JStr ''no''), (''explanation'', JStr ''Missing.'')])]),
             (''final_grade'', JStr ''Pass'')]"
  have w: ?w by (simp add: well_formed_def is_mapping_def part_ok_def part_items_def field_def)
  have l: ?l by (simp add: py_lower_def py_lower_char_def)
  have l2: "py_lower ''fail'' = ''fail''" by (simp add: py_lower_def py_lower_char_def)
  have l3: "py_lower ''maybe'' \<noteq> ''pass'' \<and> py_lower ''maybe'' \<noteq> ''fail''"
    by (simp add: py_lower_def py_lower_char_def)
  note t1 = grade_banner_of_object
    [where v = Platform and data = ?P and result = "''the payload text''" and s = "''Pass''"]
  note t2 = grade_banner_of_object [where s = "''fail''"]
  note t3 = grade_banner_of_object [where s = "''maybe''" and x = JNull]
  from t1 w l have g: ?g by (simp add: field_def)
  from t2 l2 have e: "spec_grade (Some (JStr ''fail'')) = Error ''Final Grade: FAIL''" by blast
  from t3 l3 have i: "spec_grade (Some (JStr ''maybe'')) = Info ''Final Grade: maybe''" by simp
  from t3 have n: "spec_grade (Some JNull) = Info ''Final Grade: None''" by simp
  from w l g l2 e l3 i n show ?thesis by blast
qed

text \<open>
  C4, as stated, fails. In this ecosystem payload the part \<^verbatim>\<open>part2_mve\<close> is present and is
  a mapping, but its second criterion is a number: the section shows the card of the first
  criterion only, the lookup on the number raises, and the part \<^verbatim>\<open>part3_risks\<close>, a mapping
  with a well-formed criterion, is not rendered at all.
\<close>

theorem part_rendering_counterexample:
  "part_items (JDict [(''part2_mve'',
                        JDict [(''Is the minimal viable ecosystem defined?'',
                                 JDict [(''value'', JStr ''yes''), (''explanation'', JStr ''Clear.'')]),
                               (''How many partners are essential?'', JInt 3)]),
                      (''part3_risks'',
                        JDict [(''Are core ecosystem risks identified?'',
                                 JDict [(''value'', JStr ''no''), (''explanation'', JStr ''None named.'')])])])
       ''part2_mve''
     = Some [(''Is the minimal viable ecosystem defined?'',
                JDict [(''value'', JStr ''yes''), (''explanation'', JStr ''Clear.'')]),
             (''How many partners are essential?'', JInt 3)]
   \<and> render_structured Ecosystem
        (JDict [(''part2_mve'',
                        JDict [(''Is the minimal viable ecosystem defined?'',
                                 JDict [(''value'', JStr ''yes''), (''explanation'', JStr ''Clear.'')]),
                               (''How many partners are essential?'', JInt 3)]),
                      (''part3_risks'',
                        JDict [(''Are core ecosystem risks identified?'',
                                 JDict [(''value'', JStr ''no''), (''explanation'', JStr ''None named.'')])])])
     = ([SectionCard (''Part 2 '' @ em_dash @ '' Minimal Viable Ecosystem (MVE)''),
         ItemCard check_mark ''Is the minimal viable ecosystem defined?'' ''#0f766e'' ''Clear.''],
        Some AttributeError)"
  by (simp add: part_items_def field_def render_structured_def render_part_def item_card_def
      py_lower_def py_lower_char_def)

text \<open>
  C4, amended. On a payload that is a JSON object, a part field that is absent or is not a
  mapping is skipped: nothing is displayed for it and nothing is raised. A part field that
  is a mapping whose criteria are all mappings is rendered as its section title followed
  by one card (badge, criterion name, explanation) per criterion, in the order of the
  payload. On a well-formed payload (every mapping-valued part holds only mapping-valued
  criteria) the parts are rendered so one after the other, without an exception.
\<close>

theorem parts_rendered_when_well_formed:
  "(part_items (JDict d) (fst p) = None \<longrightarrow> render_part (JDict d) p = ([], None))
   \<and> (part_items (JDict d) (fst p) = Some items \<and> list_all (\<lambda>kc. is_mapping (snd kc)) items
        \<longrightarrow> render_part (JDict d) p = (SectionCard (snd p) # map spec_card items, None))
   \<and> (well_formed v data \<longrightarrow>
        render_parts data (parts v) =
          (concat (map (\<lambda>p. case part_items data (fst p) of
                                 Some items \<Rightarrow> SectionCard (snd p) # map spec_card items
                               | None \<Rightarrow> []) (parts v)), None))"
proof -
  have a: "part_items (JDict d) (fst p) = None \<longrightarrow> render_part (JDict d) p = ([], None)"
    by (simp add: render_part_eq spec_part_def part_ok_def)
  have b: "part_items (JDict d) (fst p) = Some items \<and> list_all (\<lambda>kc. is_mapping (snd kc)) items
        \<longrightarrow> render_part (JDict d) p = (SectionCard (snd p) # map spec_card items, None)"
  proof
    assume h: "part_items (JDict d) (fst p) = Some items \<and> list_all (\<lambda>kc. is_mapping (snd kc)) items"
    then show "render_part (JDict d) p = (SectionCard (snd p) # map spec_card items, None)"
      by (simp add: render_part_eq spec_part_def part_ok_def takeWhile_list_all)
  qed
  have c: "well_formed v data \<longrightarrow>
        render_parts data (parts v) =
          (concat (map (\<lambda>p. case part_items data (fst p) of
                                 Some items \<Rightarrow> SectionCard (snd p) # map spec_card items
                               | None \<Rightarrow> []) (parts v)), None)"
  proof
    assume w: "well_formed v data"
    then obtain d' where d': "data = JDict d'"
      by (cases data) (simp_all add: well_formed_def is_mapping_def)
    from w have ok: "list_all (part_ok data) (parts v)" by (simp add: well_formed_def)
    have "map (spec_part data) (parts v) =
          map (\<lambda>p. case part_items data (fst p) of
                      Some items \<Rightarrow> SectionCard (snd p) # map spec_card items
                    | None \<Rightarrow> []) (parts v)"
    proof (rule map_cong [OF refl])
      fix q assume "q \<in> set (parts v)"
      with ok have pq: "part_ok data q" by (simp add: list_all_iff)
      show "spec_part data q = (case part_items data (fst q) of
                      Some items \<Rightarrow> SectionCard (snd q) # map spec_card items
                    | None \<Rightarrow> [])"
      proof (cases "part_items data (fst q)")
        case None
        then show ?thesis by (simp add: spec_part_def)
      next
        case (Some its)
        with pq have "list_all (\<lambda>kc. is_mapping (snd kc)) its" by (simp add: part_ok_def)
        with Some show ?thesis by (simp add: spec_part_def takeWhile_list_all)
      qed
    qed
    then have eq: "concat (map (spec_part data) (parts v)) =
          concat (map (\<lambda>p. case part_items data (fst p) of
                      Some items \<Rightarrow> SectionCard (snd p) # map spec_card items
                    | None \<Rightarrow> []) (parts v))"
      by (rule arg_cong)
    from ok have "render_parts data (parts v) = (concat (map (spec_part data) (parts v)), None)"
      unfolding d' by (rule render_parts_well_formed)
    then show "render_parts data (parts v) =
          (concat (map (\<lambda>p. case part_items data (fst p) of
                                 Some items \<Rightarrow> SectionCard (snd p) # map spec_card items
                               | None \<Rightarrow> []) (parts v)), None)"
      unfolding eq .
  qed
  from a b c show ?thesis by blast
qed

theorem parts_rendered_when_well_formed_witness:
  "part_items (JDict [(''part1_complementors_intermediaries'',
               JDict [(''Are key complementors and intermediaries identified?'',
                        JDict [(''value'', JStr ''Yes''), (''explanation'', JStr ''All named.'')])]),
            (''part3_risks'', JStr ''not assessed'')]) ''part2_mve'' = None
   \<and> render_part (JDict [(''part1_complementors_intermediaries'',
               JDict [(''Are key complementors and intermediaries identified?'',
                        JDict [(''value'', JStr ''Yes''), (''explanation'', JStr ''All named.'')])]),
            (''part3_risks'', JStr ''not assessed'')]) (''part2_mve'', ''Part 2'') = ([], None)
   \<and> part_items (JDict [(''part1_complementors_intermediaries'',
               JDict [(''Are key complementors and intermediaries identified?'',
                        JDict [(''value'', JStr ''Yes''), (''explanation'', JStr ''All named.'')])]),
            (''part3_risks'', JStr ''not assessed'')]) ''part3_risks'' = None
   \<and> render_part (JDict [(''part1_complementors_intermediaries'',
               JDict [(''Are key complementors and intermediaries identified?'',
                        JDict [(''value'', JStr ''Yes''), (''explanation'', JStr ''All named.'')])]),
            (''part3_risks'', JStr ''not assessed'')]) (''part3_risks'', ''Part 3'') = ([], None)
   \<and> part_items (JDict [(''part1_complementors_intermediaries'',
               JDict [(''Are key complementors and intermediaries identified?'',
                        JDict [(''value'', JStr ''Yes''), (''explanation'', JStr ''All named.'')])]),
            (''part3_risks'', JStr ''not assessed'')]) ''part1_complementors_intermediaries'' = Some [(''Are key complementors and intermediaries identified?'',
          JDict [(''value'', JStr ''Yes''), (''explanation'', JStr ''All named.'')])]
   \<and> list_all (\<lambda>kc. is_mapping (snd kc)) [(''Are key complementors and intermediaries identified?'',
          JDict [(''value'', JStr ''Yes''), (''explanation'', JStr ''All named.'')])]
   \<and> render_part (JDict [(''part1_complementors_intermediaries'',
               JDict [(''Are key complementors and intermediaries identified?'',
                        JDict [(''value'', JStr ''Yes''), (''explanation'', JStr ''All named.'')])]),
            (''part3_risks'', JStr ''not assessed'')]) (''part1_complementors_intermediaries'', ''Part 1'')
       = ([SectionCard ''Part 1'',
           ItemCard check_mark ''Are key complementors and intermediaries identified?''
             ''#0f766e'' ''All named.''], None)
   \<and> well_formed Ecosystem (JDict [(''part1_complementors_intermediaries'',
               JDict [(''Are key complementors and intermediaries identified?'',
                        JDict [(''value'', JStr ''Yes''), (''explanation'', JStr ''All named.'')])]),
            (''part3_risks'', JStr ''not assessed'')])
   \<and> render_parts (JDict [(''part1_complementors_intermediaries'',
               JDict [(''Are key complementors and intermediaries identified?'',
                        JDict [(''value'', JStr ''Yes''), (''explanation'', JStr ''All named.'')])]),
            (''part3_risks'', JStr ''not assessed'')]) (parts Ecosystem)
       = ([SectionCard (''Part 1 '' @ em_dash @ '' Core Complementors and Intermediaries''),
           ItemCard check_mark ''Are key complementors and intermediaries identified?''
             ''#0f766e'' ''All named.''], None)"
proof -
  let ?D = "(JDict [(''part1_complementors_intermediaries'',
               JDict [(''Are key complementors and intermediaries identified?'',
                        JDict [(''value'', JStr ''Yes''), (''explanation'', JStr ''All named.'')])]),
            (''part3_risks'', JStr ''not assessed'')])"
  let ?items = "[(''Are key complementors and intermediaries identified?'',
          JDict [(''value'', JStr ''Yes''), (''explanation'', JStr ''All named.'')])]"
  have lo: "py_lower ''Yes'' = ''yes''" by (simp add: py_lower_def py_lower_char_def)
  have h2: "part_items ?D ''part2_mve'' = None" by (simp add: part_items_def field_def)
  have h3: "part_items ?D ''part3_risks'' = None" by (simp add: part_items_def field_def)
  have h1: "part_items ?D ''part1_complementors_intermediaries'' = Some ?items"
    by (simp add: part_items_def field_def)
  have m1: "list_all (\<lambda>kc. is_mapping (snd kc)) ?items" by (simp add: is_mapping_def)
  have w: "well_formed Ecosystem ?D"
    by (simp add: well_formed_def is_mapping_def part_ok_def part_items_def field_def)
  have card: "spec_card (''Are key complementors and intermediaries identified?'',
          JDict [(''value'', JStr ''Yes''), (''explanation'', JStr ''All named.'')])
      = ItemCard check_mark ''Are key complementors and intermediaries identified?''
             ''#0f766e'' ''All named.''"
    by (simp add: spec_card_def criterion_passes_def field_def lo)
  note t = parts_rendered_when_well_formed
  from t [where p = "(''part2_mve'', ''Part 2'')" and d = "[(''part1_complementors_intermediaries'',
               JDict [(''Are key complementors and intermediaries identified?'',
                        JDict [(''value'', JStr ''Yes''), (''explanation'', JStr ''All named.'')])]),
            (''part3_risks'', JStr ''not assessed'')]"] h2
  have r2: "render_part ?D (''part2_mve'', ''Part 2'') = ([], None)" by simp
  from t [where p = "(''part3_risks'', ''Part 3'')" and d = "[(''part1_complementors_intermediaries'',
               JDict [(''Are key complementors and intermediaries identified?'',
                        JDict [(''value'', JStr ''Yes''), (''explanation'', JStr ''All named.'')])]),
            (''part3_risks'', JStr ''not assessed'')]"] h3
  have r3: "render_part ?D (''part3_risks'', ''Part 3'') = ([], None)" by simp
  from t [where p = "(''part1_complementors_intermediaries'', ''Part 1'')" and d = "[(''part1_complementors_intermediaries'',
               JDict [(''Are key complementors and intermediaries identified?'',
                        JDict [(''value'', JStr ''Yes''), (''explanation'', JStr ''All named.'')])]),
            (''part3_risks'', JStr ''not assessed'')]"
      and items = ?items] h1 m1
  have r1: "render_part ?D (''part1_complementors_intermediaries'', ''Part 1'')
       = ([SectionCard ''Part 1'',
           ItemCard check_mark ''Are key complementors and intermediaries identified?''
             ''#0f766e'' ''All named.''], None)"
    by (simp add: card)
  from t [where v = Ecosystem and data = ?D] w
  have "render_parts ?D (parts Ecosystem) =
          (concat (map (\<lambda>p. case part_items ?D (fst p) of
                                 Some items \<Rightarrow> SectionCard (snd p) # map spec_card items
                               | None \<Rightarrow> []) (parts Ecosystem)), None)"
    by blast
  then have ra: "render_parts ?D (parts Ecosystem)
       = ([SectionCard (''Part 1 '' @ em_dash @ '' Core Complementors and Intermediaries''),
           ItemCard check_mark ''Are key complementors and intermediaries identified?''
             ''#0f766e'' ''All named.''], None)"
    by (simp add: h1 h2 h3 card)
  from h2 r2 h3 r3 h1 m1 r1 w ra show ?thesis by blast
qed

text \<open>
  C8, as stated for every parsed payload, fails. In this transformation plan payload the
  field \<^verbatim>\<open>overall_comments\<close> is present and not empty, but the one criterion of its first
  part is \<^verbatim>\<open>null\<close>: rendering stops there and the report shows the fallback, without the
  Overall Comments section.
\<close>

theorem overall_comments_counterexample:
  "field (JDict [(''part1_awareness'', JDict [(''Is the awareness phase described?'', JNull)]),
                 (''final_grade'', JStr ''pass''),
                 (''overall_comments'', JStr ''Good work.'')]) ''overall_comments''
     = Some (JStr ''Good work.'')
   \<and> render_report TransformationPlan ''the payload text''
        (Inr (JDict [(''part1_awareness'', JDict [(''Is the awareness phase described?'', JNull)]),
                     (''final_grade'', JStr ''pass''),
                     (''overall_comments'', JStr ''Good work.'')]))
     = [SectionCard (''Part 1 '' @ em_dash @ '' Awareness''),
        Warning ''Could not parse the evaluation into sections. Showing compact text.'',
        Write (JStr ''the payload text'')]"
  by (simp add: field_def render_report_def render_structured_def render_part_def item_card_def
      fallback_def)

text \<open>
  C8, amended. On every payload that is a JSON object the comments step never raises; it
  displays the heading \<^verbatim>\<open>### Overall Comments\<close> followed by the value as it is when the
  field is present and true in Python's sense (for a string: not empty), and nothing when
  the field is absent or the empty string. On a well-formed payload the report is the part
  sections, the grade banner and then these comments, so the heading is in the report
  exactly when the field is present and not empty. The payload of the example, given to the
  digital disruption variant, shows the Part 1 section with one green badge, the FAIL
  banner, and no Overall Comments section.
\<close>

theorem overall_comments_when_well_formed:
  "overall_comments (JDict d) = Inr (spec_comments (map_of d ''overall_comments''))
   \<and> spec_comments None = []
   \<and> spec_comments (Some (JStr [])) = []
   \<and> (s \<noteq> [] \<longrightarrow> spec_comments (Some (JStr s)) = [Markdown ''### Overall Comments'', Write (JStr s)])
   \<and> (well_formed v data \<longrightarrow>
        render_report v result (Inr data) =
          concat (map (spec_part data) (parts v))
            @ [spec_grade (field data ''final_grade'')]
            @ spec_comments (field data ''overall_comments'')
        \<and> (Markdown ''### Overall Comments'' \<in> set (render_report v result (Inr data)))
            = (\<exists>c. field data ''overall_comments'' = Some c \<and> py_truthy c))
   \<and> render_report DigitalDisruption result
        (Inr (JDict [(''part1'', JDict [(''Q1'', JDict [(''value'', JStr ''yes''),
                                                       (''explanation'', JStr ''ok'')])]),
                     (''final_grade'', JStr ''fail''),
                     (''overall_comments'', JStr [])]))
       = [SectionCard (''Part 1 '' @ em_dash @ '' Business Model''),
          ItemCard check_mark ''Q1'' ''#0f766e'' ''ok'',
          Error ''Final Grade: FAIL'']"
proof -
  have a: "overall_comments (JDict d) = Inr (spec_comments (map_of d ''overall_comments''))"
    by (rule overall_comments_eq)
  have b: "spec_comments None = [] \<and> spec_comments (Some (JStr [])) = []
     \<and> (s \<noteq> [] \<longrightarrow> spec_comments (Some (JStr s)) = [Markdown ''### Overall Comments'', Write (JStr s)])"
    by (simp add: spec_comments_def)
  have c: "well_formed v data \<longrightarrow>
        render_report v result (Inr data) =
          concat (map (spec_part data) (parts v))
            @ [spec_grade (field data ''final_grade'')]
            @ spec_comments (field data ''overall_comments'')
        \<and> (Markdown ''### Overall Comments'' \<in> set (render_report v result (Inr data)))
            = (\<exists>c. field data ''overall_comments'' = Some c \<and> py_truthy c)"
  proof
    assume w: "well_formed v data"
    let ?cards = "concat (map (spec_part data) (parts v))"
    let ?g = "spec_grade (field data ''final_grade'')"
    let ?cs = "spec_comments (field data ''overall_comments'')"
    have r: "render_report v result (Inr data) = ?cards @ [?g] @ ?cs"
      by (rule render_report_well_formed [OF w])
    have n1: "Markdown ''### Overall Comments'' \<notin> set ?cards"
    proof
      assume "Markdown ''### Overall Comments'' \<in> set ?cards"
      moreover have "list_all is_card_event ?cards" by (rule spec_parts_cards)
      ultimately have "is_card_event (Markdown ''### Overall Comments'')"
        unfolding list_all_iff by blast
      then show False by (simp add: is_card_event_def)
    qed
    have n2: "Markdown ''### Overall Comments'' \<noteq> ?g"
    proof
      assume "Markdown ''### Overall Comments'' = ?g"
      then have "is_grade_event (Markdown ''### Overall Comments'')"
        using spec_grade_is_grade [of "field data ''final_grade''"] by simp
      then show False by (simp add: is_grade_event_def)
    qed
    have n3: "(Markdown ''### Overall Comments'' \<in> set ?cs)
            = (\<exists>c. field data ''overall_comments'' = Some c \<and> py_truthy c)"
      by (cases "field data ''overall_comments''") (simp_all add: spec_comments_def)
    show "render_report v result (Inr data) = ?cards @ [?g] @ ?cs
        \<and> (Markdown ''### Overall Comments'' \<in> set (render_report v result (Inr data)))
            = (\<exists>c. field data ''overall_comments'' = Some c \<and> py_truthy c)"
      unfolding r using n1 n2 n3 by auto
  qed
  have e: "render_report DigitalDisruption result
        (Inr (JDict [(''part1'', JDict [(''Q1'', JDict [(''value'', JStr ''yes''),
                                                       (''explanation'', JStr ''ok'')])]),
                     (''final_grade'', JStr ''fail''),
                     (''overall_comments'', JStr [])]))
       = [SectionCard (''Part 1 '' @ em_dash @ '' Business Model''),
          ItemCard check_mark ''Q1'' ''#0f766e'' ''ok'',
          Error ''Final Grade: FAIL'']"
    by (simp add: render_report_def render_structured_def render_part_def item_card_def
        final_grade_banner_def overall_comments_def py_lower_def py_lower_char_def)
  from a b c e show ?thesis by blast
qed

theorem overall_comments_when_well_formed_witness:
  "''Solid plan.'' \<noteq> []
   \<and> spec_comments (Some (JStr ''Solid plan.'')) = [Markdown ''### Overall Comments'', Write (JStr ''Solid plan.'')]
   \<and> well_formed TransformationPlan
        (JDict [(''part2_vision'', JDict [(''Is a digital vision stated?'',
                    JDict [(''value'', JStr ''yes''), (''explanation'', JStr ''Stated.'')])]),
                (''final_grade'', JStr ''pass''),
                (''overall_comments'', JStr ''Solid plan.'')])
   \<and> render_report TransformationPlan ''the payload text''
        (Inr (JDict [(''part2_vision'', JDict [(''Is a digital vision stated?'',
                    JDict [(''value'', JStr ''yes''), (''explanation'', JStr ''Stated.'')])]),
                (''final_grade'', JStr ''pass''),
                (''overall_comments'', JStr ''Solid plan.'')]))
       = [SectionCard (''Part 2 '' @ em_dash @ '' Digital Vision''),
          ItemCard check_mark ''Is a digital vision stated?'' ''#0f766e'' ''Stated.'',
          Success ''Final Grade: PASS'',
          Markdown ''### Overall Comments'',
          Write (JStr ''Solid plan.'')]"
  (is "?n \<and> ?s \<and> ?w \<and> ?r")
proof -
  let ?D = "JDict [(''part2_vision'', JDict [(''Is a digital vision stated?'',
                    JDict [(''value'', JStr ''yes''), (''explanation'', JStr ''Stated.'')])]),
                (''final_grade'', JStr ''pass''),
                (''overall_comments'', JStr ''Solid plan.'')]"
  have n: ?n by simp
  have w: ?w by (simp add: well_formed_def is_mapping_def part_ok_def part_items_def field_def)
  have lo: "py_lower ''yes'' = ''yes'' \<and> py_lower ''pass'' = ''pass''"
    by (simp add: py_lower_def py_lower_char_def)
  note t = overall_comments_when_well_formed
    [where s = "''Solid plan.''" and v = TransformationPlan and data = ?D
       and result = "''the payload text''"]
  from t n have s: ?s by blast
  from t w have "render_report TransformationPlan ''the payload text'' (Inr ?D) =
          concat (map (spec_part ?D) (parts TransformationPlan))
            @ [spec_grade (field ?D ''final_grade'')]
            @ spec_comments (field ?D ''overall_comments'')"
    by blast
  then have r: ?r
    by (simp add: spec_part_def part_items_def field_def spec_card_def criterion_passes_def
        spec_grade_def spec_comments_def is_mapping_def lo)
  from n s w r show ?thesis by blast
qed

text \<open>
  C10. When the payload is a JSON object and some part of the variant is a mapping that
  holds a criterion which is not itself a mapping, structured rendering stops with the
  AttributeError of the lookup on that criterion. What was displayed up to that point stays
  (the sections of the well-formed parts before, then the title of the first part with a
  malformed criterion and the cards of its criteria before the first malformed one); no
  later criterion, no later part, no grade banner and no comments are displayed. The
  report then ends with the warning and the raw text of the fallback; the exception is
  caught there and does not leave the renderer.
\<close>

theorem malformed_criterion_aborts_to_fallback:
  assumes "p \<in> set (parts v)"
    and "part_items data (fst p) = Some items"
    and "kc \<in> set items"
    and "\<not> is_mapping (snd kc)"
  shows "\<exists>evs.
           render_structured v data = (evs, Some AttributeError)
         \<and> evs = concat (map (spec_part data) (takeWhile (part_ok data) (parts v)))
                  @ (case dropWhile (part_ok data) (parts v) of
                       [] \<Rightarrow> []
                     | q # rest \<Rightarrow> spec_part data q)
         \<and> list_all is_card_event evs
         \<and> render_report v result (Inr data) =
              evs @ [Warning ''Could not parse the evaluation into sections. Showing compact text.'',
                     Write (JStr result)]"
proof -
  from assms(2) obtain d where d: "data = JDict d"
    by (cases data) (simp_all add: part_items_def field_def)
  from assms(2,3,4) have "\<not> part_ok data p"
    by (auto simp add: part_ok_def list_all_iff)
  with assms(1) have bad: "\<not> list_all (part_ok (JDict d)) (parts v)"
    by (auto simp add: list_all_iff d)
  let ?evs = "concat (map (spec_part data) (takeWhile (part_ok data) (parts v)))
                  @ (case dropWhile (part_ok data) (parts v) of
                       [] \<Rightarrow> []
                     | q # rest \<Rightarrow> spec_part data q)"
  have rs: "render_structured v data = (?evs, Some AttributeError)"
    unfolding d using bad by (simp add: render_structured_def render_parts_eq)
  have cards: "list_all is_card_event ?evs"
  proof -
    have "list_all is_card_event (concat (map (spec_part data) (takeWhile (part_ok data) (parts v))))"
      by (rule spec_parts_cards)
    moreover have "list_all is_card_event
        (case dropWhile (part_ok data) (parts v) of [] \<Rightarrow> [] | q # rest \<Rightarrow> spec_part data q)"
      by (simp add: spec_part_cards split: list.split)
    ultimately show ?thesis by simp
  qed
  have rr: "render_report v result (Inr data) =
              ?evs @ [Warning ''Could not parse the evaluation into sections. Showing compact text.'',
                     Write (JStr result)]"
    by (simp add: render_report_def rs fallback_def)
  from rs cards rr show ?thesis by blast
qed

theorem malformed_criterion_aborts_to_fallback_witness:
  "(''part1'', ''Part 1 '' @ em_dash @ '' Business Model'') \<in> set (parts DigitalDisruption)
   \<and> part_items (JDict [(''part1'', JDict [(''Q1'', JDict [(''value'', JStr ''yes''), (''explanation'', JStr ''ok'')]),
                                        (''Q2'', JStr ''yes''),
                                        (''Q3'', JDict [(''value'', JStr ''no''), (''explanation'', JStr ''missing'')])]),
                      (''part2'', JDict [(''Q4'', JDict [(''value'', JStr ''yes''), (''explanation'', JStr ''fine'')])]),
                      (''final_grade'', JStr ''fail''),
                      (''overall_comments'', JStr ''See Q3.'')]) ''part1''
       = Some [(''Q1'', JDict [(''value'', JStr ''yes''), (''explanation'', JStr ''ok'')]),
               (''Q2'', JStr ''yes''),
               (''Q3'', JDict [(''value'', JStr ''no''), (''explanation'', JStr ''missing'')])]
   \<and> \<not> is_mapping (JStr ''yes'')
   \<and> render_report DigitalDisruption ''the payload text''
        (Inr (JDict [(''part1'', JDict [(''Q1'', JDict [(''value'', JStr ''yes''), (''explanation'', JStr ''ok'')]),
                                        (''Q2'', JStr ''yes''),
                                        (''Q3'', JDict [(''value'', JStr ''no''), (''explanation'', JStr ''missing'')])]),
                      (''part2'', JDict [(''Q4'', JDict [(''value'', JStr ''yes''), (''explanation'', JStr ''fine'')])]),
                      (''final_grade'', JStr ''fail''),
                      (''overall_comments'', JStr ''See Q3.'')]))
       = [SectionCard (''Part 1 '' @ em_dash @ '' Business Model''),
          ItemCard check_mark ''Q1'' ''#0f766e'' ''ok'',
          Warning ''Could not parse the evaluation into sections. Showing compact text.'',
          Write (JStr ''the payload text'')]"
  (is "?p \<and> ?i \<and> ?n \<and> ?r")
proof -
  let ?D = "JDict [(''part1'', JDict [(''Q1'', JDict [(''value'', JStr ''yes''), (''explanation'', JStr ''ok'')]),
                                        (''Q2'', JStr ''yes''),
                                        (''Q3'', JDict [(''value'', JStr ''no''), (''explanation'', JStr ''missing'')])]),
                      (''part2'', JDict [(''Q4'', JDict [(''value'', JStr ''yes''), (''explanation'', JStr ''fine'')])]),
                      (''final_grade'', JStr ''fail''),
                      (''overall_comments'', JStr ''See Q3.'')]"
  let ?items = "[(''Q1'', JDict [(''value'', JStr ''yes''), (''explanation'', JStr ''ok'')]),
               (''Q2'', JStr ''yes''),
               (''Q3'', JDict [(''value'', JStr ''no''), (''explanation'', JStr ''missing'')])]"
  have p: ?p by simp
  have i: ?i by (simp add: part_items_def field_def)
  have k: "(''Q2'', JStr ''yes'') \<in> set ?items" by simp
  have n: "\<not> is_mapping (snd (''Q2'', JStr ''yes''))" by (simp add: is_mapping_def)
  have lo: "py_lower ''yes'' = ''yes''" by (simp add: py_lower_def py_lower_char_def)
  have i': "part_items ?D (fst (''part1'', ''Part 1 '' @ em_dash @ '' Business Model'')) = Some ?items"
    using i by simp
  from malformed_criterion_aborts_to_fallback [OF p i' k n, of "''the payload text''"]
  obtain evs where
    e: "evs = concat (map (spec_part ?D) (takeWhile (part_ok ?D) (parts DigitalDisruption)))
                  @ (case dropWhile (part_ok ?D) (parts DigitalDisruption) of
                       [] \<Rightarrow> []
                     | q # rest \<Rightarrow> spec_part ?D q)"
    and r: "render_report DigitalDisruption ''the payload text'' (Inr ?D) =
              evs @ [Warning ''Could not parse the evaluation into sections. Showing compact text.'',
                     Write (JStr ''the payload text'')]"
    by blast
  have "evs = [SectionCard (''Part 1 '' @ em_dash @ '' Business Model''),
          ItemCard check_mark ''Q1'' ''#0f766e'' ''ok'']"
    unfolding e
    by (simp add: part_ok_def part_items_def field_def is_mapping_def spec_part_def spec_card_def
        criterion_passes_def lo)
  with r have r': ?r by simp
  from n have n': ?n by simp
  from p i n' r' show ?thesis by blast
qed

text \<open>
  C5. When the submission is empty or consists of white space only (every code point of it
  is one that \<^verbatim>\<open>str.strip\<close> removes, the Unicode white space included), the handler of every
  variant displays the warning \<^verbatim>\<open>Please paste your submission text before evaluating.\<close> and
  nothing else, and \<^verbatim>\<open>call_agent\<close> is not invoked; the test comes before the credential
  test, so this holds for every API key and environment. Hence every run of the script
  that reaches the handler with the button pressed displays exactly this warning.
\<close>

theorem empty_submission_warns_without_call:
  assumes "\<forall>c \<in> set user_text. py_isspace c"
  shows "run_handler v agent loads api_key env model user_text =
           [Warning ''Please paste your submission text before evaluating.'']
       \<and> filter is_remote_call (run_handler v agent loads api_key env model user_text) = []
       \<and> (acquire_key v inp = Inr (api_key, env) \<and> inp_run inp \<and> inp_user_text inp = user_text
            \<longrightarrow> page v agent loads inp =
                  ([Warning ''Please paste your submission text before evaluating.''], None))"
proof -
  from assms have e: "py_strip user_text = []" by (simp add: py_strip_empty_iff)
  then have h: "run_handler v agent loads api_key env model user_text =
           [Warning ''Please paste your submission text before evaluating.'']" for model
    by (simp add: run_handler_def)
  have f: "filter is_remote_call (run_handler v agent loads api_key env model user_text) = []"
    by (simp add: h is_remote_call_def)
  have p: "acquire_key v inp = Inr (api_key, env) \<and> inp_run inp \<and> inp_user_text inp = user_text
            \<longrightarrow> page v agent loads inp =
                  ([Warning ''Please paste your submission text before evaluating.''], None)"
    by (auto simp add: page_def h)
  from h f p show ?thesis by blast
qed

theorem empty_submission_warns_without_call_witness:
  "(\<forall>c \<in> set [0x20, 0x0A, 0x09, 0xA0, 0x3000, 0x2003, 0x85]. py_isspace c) = True
   \<and> run_handler Platform (\<lambda>k m t. Inr ''unused'') (\<lambda>s. Inl JSONDecodeError) ''sk-test'' Map.empty
        ''gpt-5-nano'' [0x20, 0x0A, 0x09, 0xA0, 0x3000, 0x2003, 0x85]
       = [Warning ''Please paste your submission text before evaluating.'']
   \<and> run_handler Platform (\<lambda>k m t. Inr ''unused'') (\<lambda>s. Inl JSONDecodeError) [] Map.empty
        ''gpt-5-nano'' []
       = [Warning ''Please paste your submission text before evaluating.'']
   \<and> acquire_key DigitalDisruption
        \<lparr>inp_sidebar_key = [], inp_model = ''gpt-5-nano'', inp_user_text = [0xA0, 0x0A],
         inp_run = True, inp_secrets = Some [''OPENAI_API_KEY'' \<mapsto> ''sk-secret''],
         inp_environ = Map.empty\<rparr>
       = Inr (''sk-secret'', [''OPENAI_API_KEY'' \<mapsto> ''sk-secret''])
   \<and> page DigitalDisruption (\<lambda>k m t. Inr ''unused'') (\<lambda>s. Inl JSONDecodeError)
        \<lparr>inp_sidebar_key = [], inp_model = ''gpt-5-nano'', inp_user_text = [0xA0, 0x0A],
         inp_run = True, inp_secrets = Some [''OPENAI_API_KEY'' \<mapsto> ''sk-secret''],
         inp_environ = Map.empty\<rparr>
       = ([Warning ''Please paste your submission text before evaluating.''], None)"
  (is "?s \<and> ?h1 \<and> ?h2 \<and> ?a \<and> ?p")
proof -
  have s1: "\<forall>c \<in> set [0x20, 0x0A, 0x09, 0xA0, 0x3000, 0x2003, 0x85]. py_isspace c"
    by (simp add: py_isspace_def)
  have s2: "\<forall>c \<in> set ([] :: unicode). py_isspace c" by simp
  have s3: "\<forall>c \<in> set [0xA0, 0x0A]. py_isspace c" by (simp add: py_isspace_def)
  let ?inp = "\<lparr>inp_sidebar_key = [], inp_model = ''gpt-5-nano'', inp_user_text = [0xA0, 0x0A],
         inp_run = True, inp_secrets = Some [''OPENAI_API_KEY'' \<mapsto> ''sk-secret''],
         inp_environ = Map.empty\<rparr>"
  have a: ?a by (simp add: acquire_key_def)
  from s1 have s: ?s by simp
  from empty_submission_warns_without_call [OF s1] have h1: ?h1 by blast
  from empty_submission_warns_without_call [OF s2] have h2: ?h2 by blast
  from empty_submission_warns_without_call [OF s3, where v = DigitalDisruption and inp = ?inp
      and api_key = "''sk-secret''" and env = "[''OPENAI_API_KEY'' \<mapsto> ''sk-secret'']"] a
  have p: ?p by simp
  from s h1 h2 a p show ?thesis by blast
qed



text \<open>
  C7, as stated, fails. The chain does not stop at the first candidate that is a string,
  and extraction can raise. In the first response the model produced no text: its
  \<^verbatim>\<open>output_text\<close> field is the empty string, and what is returned is the serialisation of
  the response, not that string. In the second the first segment's text is a number: it is
  taken, the string in the \<^verbatim>\<open>output_text\<close> field is not consulted, and the serialisation is
  returned. The third response has no \<^verbatim>\<open>__dict__\<close>: the serialisation, which is outside the
  \<^verbatim>\<open>try\<close>, raises AttributeError.
\<close>

theorem extraction_counterexample:
  "getattr (PObj [(''id'', PStr ''resp_1''),
                  (''output'', PList [PObj [(''type'', PStr ''reasoning'')]]),
                  (''output_text'', PStr [])]) ''output_text'' = Some (PStr [])
   \<and> extract_text dumps_names
         (PObj [(''id'', PStr ''resp_1''),
                (''output'', PList [PObj [(''type'', PStr ''reasoning'')]]),
                (''output_text'', PStr [])])
       = Inr ''id, output, output_text''
   \<and> getattr (PObj [(''output'',
                     PList [PObj [(''content'',
                                    PList [PObj [(''type'', PStr ''output_text''), (''text'', PInt 7)]])]]),
                  (''output_text'', PStr ''hello'')]) ''output_text'' = Some (PStr ''hello'')
   \<and> extract_text dumps_names
         (PObj [(''output'',
                     PList [PObj [(''content'',
                                    PList [PObj [(''type'', PStr ''output_text''), (''text'', PInt 7)]])]]),
                  (''output_text'', PStr ''hello'')])
       = Inr ''output, output_text''
   \<and> extract_text dumps_names (PSlots [(''id'', PStr ''resp_2''), (''output'', PList [])])
       = Inl AttributeError"
  by (simp add: extract_text_def try_extract_def scan_segments_def getattr_default_def py_or_def
      scan_item_def serialise_def dumps_names_def)

text \<open>
  C7, amended. The extraction of \<^verbatim>\<open>call_agent\<close> is a prioritised chain in which a candidate
  succeeds when it is true in Python's sense (a text: when it is not empty). The
  candidates are, in this order, what the scan of the output list found, the
  \<^verbatim>\<open>output_text\<close> field and the \<^verbatim>\<open>content\<close> field; the first that succeeds is taken, and
  when neither of the first two succeeds the \<^verbatim>\<open>content\<close> field is taken as it is. What is
  taken is returned when it is a string; otherwise, and in particular when none of the
  three is a string, the result is \<^verbatim>\<open>json.dumps(response.__dict__, default=str)\<close>. On a
  response of the expected shape the scan gives, item by item, the text of the item's first
  \<^verbatim>\<open>output_text\<close> part and stops at the first text that is not empty; a scan that raises
  gives nothing, the exception being caught. Whenever the response has an instance
  dictionary, as the client's objects have, the extraction returns a string.
\<close>

theorem extraction_is_truthiness_chain:
  "extract_text dumps response = spec_extract dumps response
   \<and> (transport api_key model user_text = Inr response
        \<longrightarrow> call_agent transport dumps api_key model user_text = spec_extract dumps response)
   \<and> (getattr response ''output'' = Some (PList outs) \<and> list_all item_shaped outs
        \<longrightarrow> first_segment response =
              (case find truthy (item_texts outs) of
                 Some x \<Rightarrow> x
               | None \<Rightarrow> last (PNone # item_texts outs)))
   \<and> (first_segment response = PStr s \<and> s \<noteq> [] \<longrightarrow> extract_text dumps response = Inr s)
   \<and> (\<not> truthy (first_segment response) \<and> getattr response ''output_text'' = Some (PStr s) \<and> s \<noteq> []
        \<longrightarrow> extract_text dumps response = Inr s)
   \<and> (\<not> truthy (first_segment response) \<and> \<not> truthy (getattr_default response ''output_text'' PNone)
          \<and> getattr response ''content'' = Some (PStr s)
        \<longrightarrow> extract_text dumps response = Inr s)
   \<and> ((\<forall>t. first_segment response \<noteq> PStr t)
          \<and> (\<forall>t. getattr response ''output_text'' \<noteq> Some (PStr t))
          \<and> (\<forall>t. getattr response ''content'' \<noteq> Some (PStr t))
        \<longrightarrow> extract_text dumps response = serialise dumps response)
   \<and> (py_dict response = Inr attrs \<longrightarrow> (\<exists>r. extract_text dumps response = Inr r))
   \<and> serialise dumps (PObj attrs) = Inr (dumps attrs)"
proof -
  have a: "extract_text dumps response = spec_extract dumps response"
    by (rule extract_text_chain)
  have b: "transport api_key model user_text = Inr response
        \<longrightarrow> call_agent transport dumps api_key model user_text = spec_extract dumps response"
    by (simp add: call_agent_def a)
  have c: "getattr response ''output'' = Some (PList outs) \<and> list_all item_shaped outs
        \<longrightarrow> first_segment response =
              (case find truthy (item_texts outs) of
                 Some x \<Rightarrow> x
               | None \<Rightarrow> last (PNone # item_texts outs))"
    using first_segment_shaped [of response outs] by blast
  have d: "first_segment response = PStr s \<and> s \<noteq> [] \<longrightarrow> extract_text dumps response = Inr s"
    by (simp add: a spec_extract_def)
  have e: "\<not> truthy (first_segment response) \<and> getattr response ''output_text'' = Some (PStr s) \<and> s \<noteq> []
        \<longrightarrow> extract_text dumps response = Inr s"
    by (simp add: a spec_extract_def getattr_default_def)
  have f: "\<not> truthy (first_segment response) \<and> \<not> truthy (getattr_default response ''output_text'' PNone)
          \<and> getattr response ''content'' = Some (PStr s)
        \<longrightarrow> extract_text dumps response = Inr s"
    by (simp add: a spec_extract_def getattr_default_def)
  have sp: "spec_extract dumps response =
        (if truthy (first_segment response)
         then (case first_segment response of PStr s \<Rightarrow> Inr s | _ \<Rightarrow> serialise dumps response)
         else if truthy (getattr_default response ''output_text'' PNone)
         then (case getattr_default response ''output_text'' PNone of
                 PStr s \<Rightarrow> Inr s | _ \<Rightarrow> serialise dumps response)
         else (case getattr_default response ''content'' PNone of
                 PStr s \<Rightarrow> Inr s | _ \<Rightarrow> serialise dumps response))"
    by (simp add: spec_extract_def split: pyval.splits)
  have g: "(\<forall>t. first_segment response \<noteq> PStr t)
          \<and> (\<forall>t. getattr response ''output_text'' \<noteq> Some (PStr t))
          \<and> (\<forall>t. getattr response ''content'' \<noteq> Some (PStr t))
        \<longrightarrow> extract_text dumps response = serialise dumps response"
  proof
    assume h: "(\<forall>t. first_segment response \<noteq> PStr t)
          \<and> (\<forall>t. getattr response ''output_text'' \<noteq> Some (PStr t))
          \<and> (\<forall>t. getattr response ''content'' \<noteq> Some (PStr t))"
    have n1: "(case first_segment response of PStr s \<Rightarrow> Inr s | _ \<Rightarrow> serialise dumps response)
                = serialise dumps response"
      using h by (cases "first_segment response") simp_all
    have n2: "(case getattr_default response ''output_text'' PNone of
                 PStr s \<Rightarrow> Inr s | _ \<Rightarrow> serialise dumps response)
                = serialise dumps response"
      using h by (cases "getattr response ''output_text''"; cases "getattr_default response ''output_text'' PNone")
        (simp_all add: getattr_default_def)
    have n3: "(case getattr_default response ''content'' PNone of
                 PStr s \<Rightarrow> Inr s | _ \<Rightarrow> serialise dumps response)
                = serialise dumps response"
      using h by (cases "getattr response ''content''"; cases "getattr_default response ''content'' PNone")
        (simp_all add: getattr_default_def)
    show "extract_text dumps response = serialise dumps response"
      unfolding a sp n1 n2 n3 by simp
  qed
  have i: "py_dict response = Inr attrs \<longrightarrow> (\<exists>r. extract_text dumps response = Inr r)"
  proof
    assume pd: "py_dict response = Inr attrs"
    then have se: "serialise dumps response = Inr (dumps attrs)" by (simp add: serialise_def)
    show "\<exists>r. extract_text dumps response = Inr r"
      unfolding a sp se by (simp split: pyval.splits)
  qed
  have j: "serialise dumps (PObj attrs) = Inr (dumps attrs)" by (simp add: serialise_def)
  from a b c d e f g i j show ?thesis by blast
qed

theorem extraction_is_truthiness_chain_witness:
  "(\<lambda>k m t. Inr (PObj [(''id'', PStr ''resp_1''),
            (''output'',
               PList [PObj [(''type'', PStr ''reasoning'')],
                      PObj [(''type'', PStr ''message''),
                            (''content'',
                               PList [PObj [(''type'', PStr ''refusal''), (''refusal'', PStr [])],
                                      PObj [(''type'', PStr ''output_text''), (''text'', PStr ''{}'')]])]]),
            (''output_text'', PStr ''{}'')]) :: exn + pyval) ''sk-test'' ''gpt-5-nano'' (ascii ''My analysis'') = Inr (PObj [(''id'', PStr ''resp_1''),
            (''output'',
               PList [PObj [(''type'', PStr ''reasoning'')],
                      PObj [(''type'', PStr ''message''),
                            (''content'',
                               PList [PObj [(''type'', PStr ''refusal''), (''refusal'', PStr [])],
                                      PObj [(''type'', PStr ''output_text''), (''text'', PStr ''{}'')]])]]),
            (''output_text'', PStr ''{}'')])
   \<and> call_agent (\<lambda>k m t. Inr (PObj [(''id'', PStr ''resp_1''),
            (''output'',
               PList [PObj [(''type'', PStr ''reasoning'')],
                      PObj [(''type'', PStr ''message''),
                            (''content'',
                               PList [PObj [(''type'', PStr ''refusal''), (''refusal'', PStr [])],
                                      PObj [(''type'', PStr ''output_text''), (''text'', PStr ''{}'')]])]]),
            (''output_text'', PStr ''{}'')])) dumps_names ''sk-test'' ''gpt-5-nano'' (ascii ''My analysis'')
       = Inr ''{}''
   \<and> getattr (PObj [(''id'', PStr ''resp_1''),
            (''output'',
               PList [PObj [(''type'', PStr ''reasoning'')],
                      PObj [(''type'', PStr ''message''),
                            (''content'',
                               PList [PObj [(''type'', PStr ''refusal''), (''refusal'', PStr [])],
                                      PObj [(''type'', PStr ''output_text''), (''text'', PStr ''{}'')]])]]),
            (''output_text'', PStr ''{}'')]) ''output'' = Some (PList [PObj [(''type'', PStr ''reasoning'')],
                      PObj [(''type'', PStr ''message''),
                            (''content'',
                               PList [PObj [(''type'', PStr ''refusal''), (''refusal'', PStr [])],
                                      PObj [(''type'', PStr ''output_text''), (''text'', PStr ''{}'')]])]])
   \<and> list_all item_shaped [PObj [(''type'', PStr ''reasoning'')],
                      PObj [(''type'', PStr ''message''),
                            (''content'',
                               PList [PObj [(''type'', PStr ''refusal''), (''refusal'', PStr [])],
                                      PObj [(''type'', PStr ''output_text''), (''text'', PStr ''{}'')]])]]
   \<and> first_segment (PObj [(''id'', PStr ''resp_1''),
            (''output'',
               PList [PObj [(''type'', PStr ''reasoning'')],
                      PObj [(''type'', PStr ''message''),
                            (''content'',
                               PList [PObj [(''type'', PStr ''refusal''), (''refusal'', PStr [])],
                                      PObj [(''type'', PStr ''output_text''), (''text'', PStr ''{}'')]])]]),
            (''output_text'', PStr ''{}'')]) = PStr ''{}''
   \<and> extract_text dumps_names (PObj [(''id'', PStr ''resp_1''),
            (''output'',
               PList [PObj [(''type'', PStr ''reasoning'')],
                      PObj [(''type'', PStr ''message''),
                            (''content'',
                               PList [PObj [(''type'', PStr ''refusal''), (''refusal'', PStr [])],
                                      PObj [(''type'', PStr ''output_text''), (''text'', PStr ''{}'')]])]]),
            (''output_text'', PStr ''{}'')]) = Inr ''{}''
   \<and> py_dict (PObj [(''id'', PStr ''resp_1''),
            (''output'',
               PList [PObj [(''type'', PStr ''reasoning'')],
                      PObj [(''type'', PStr ''message''),
                            (''content'',
                               PList [PObj [(''type'', PStr ''refusal''), (''refusal'', PStr [])],
                                      PObj [(''type'', PStr ''output_text''), (''text'', PStr ''{}'')]])]]),
            (''output_text'', PStr ''{}'')]) = Inr [(''id'', PStr ''resp_1''),
            (''output'',
               PList [PObj [(''type'', PStr ''reasoning'')],
                      PObj [(''type'', PStr ''message''),
                            (''content'',
                               PList [PObj [(''type'', PStr ''refusal''), (''refusal'', PStr [])],
                                      PObj [(''type'', PStr ''output_text''), (''text'', PStr ''{}'')]])]]),
            (''output_text'', PStr ''{}'')]
   \<and> \<not> truthy (first_segment (PObj [(''output'',
               PList [PObj [(''type'', PStr ''reasoning''), (''content'', PNone)],
                      PObj [(''type'', PStr ''message''),
                            (''content'', PList [PObj [(''type'', PStr ''output_text''), (''text'', PStr ''one'')]])]]),
            (''output_text'', PStr ''one'')]))
   \<and> getattr (PObj [(''output'',
               PList [PObj [(''type'', PStr ''reasoning''), (''content'', PNone)],
                      PObj [(''type'', PStr ''message''),
                            (''content'', PList [PObj [(''type'', PStr ''output_text''), (''text'', PStr ''one'')]])]]),
            (''output_text'', PStr ''one'')]) ''output_text'' = Some (PStr ''one'')
   \<and> extract_text dumps_names (PObj [(''output'',
               PList [PObj [(''type'', PStr ''reasoning''), (''content'', PNone)],
                      PObj [(''type'', PStr ''message''),
                            (''content'', PList [PObj [(''type'', PStr ''output_text''), (''text'', PStr ''one'')]])]]),
            (''output_text'', PStr ''one'')]) = Inr ''one''
   \<and> \<not> truthy (first_segment (PObj [(''content'', PStr ''legacy text'')]))
   \<and> \<not> truthy (getattr_default (PObj [(''content'', PStr ''legacy text'')]) ''output_text'' PNone)
   \<and> getattr (PObj [(''content'', PStr ''legacy text'')]) ''content'' = Some (PStr ''legacy text'')
   \<and> extract_text dumps_names (PObj [(''content'', PStr ''legacy text'')]) = Inr ''legacy text''
   \<and> first_segment (PObj [(''id'', PStr ''resp_2''), (''output'', PList [])]) = PNone
   \<and> getattr (PObj [(''id'', PStr ''resp_2''), (''output'', PList [])]) ''output_text'' = None
   \<and> getattr (PObj [(''id'', PStr ''resp_2''), (''output'', PList [])]) ''content'' = None
   \<and> extract_text dumps_names (PObj [(''id'', PStr ''resp_2''), (''output'', PList [])]) = Inr ''id, output''"
proof -
  let ?A = "(PObj [(''id'', PStr ''resp_1''),
            (''output'',
               PList [PObj [(''type'', PStr ''reasoning'')],
                      PObj [(''type'', PStr ''message''),
                            (''content'',
                               PList [PObj [(''type'', PStr ''refusal''), (''refusal'', PStr [])],
                                      PObj [(''type'', PStr ''output_text''), (''text'', PStr ''{}'')]])]]),
            (''output_text'', PStr ''{}'')])"
  let ?B = "(PObj [(''output'',
               PList [PObj [(''type'', PStr ''reasoning''), (''content'', PNone)],
                      PObj [(''type'', PStr ''message''),
                            (''content'', PList [PObj [(''type'', PStr ''output_text''), (''text'', PStr ''one'')]])]]),
            (''output_text'', PStr ''one'')])"
  let ?C = "(PObj [(''content'', PStr ''legacy text'')])"
  let ?E = "(PObj [(''id'', PStr ''resp_2''), (''output'', PList [])])"
  let ?outs = "[PObj [(''type'', PStr ''reasoning'')],
                      PObj [(''type'', PStr ''message''),
                            (''content'',
                               PList [PObj [(''type'', PStr ''refusal''), (''refusal'', PStr [])],
                                      PObj [(''type'', PStr ''output_text''), (''text'', PStr ''{}'')]])]]"
  let ?attrs = "[(''id'', PStr ''resp_1''),
            (''output'',
               PList [PObj [(''type'', PStr ''reasoning'')],
                      PObj [(''type'', PStr ''message''),
                            (''content'',
                               PList [PObj [(''type'', PStr ''refusal''), (''refusal'', PStr [])],
                                      PObj [(''type'', PStr ''output_text''), (''text'', PStr ''{}'')]])]]),
            (''output_text'', PStr ''{}'')]"
  note defs = first_segment_def scan_segments_def getattr_default_def py_or_def scan_item_def
  have tr: "(\<lambda>k m t. Inr ?A :: exn + pyval) ''sk-test'' ''gpt-5-nano'' (ascii ''My analysis'') = Inr ?A"
    by simp
  have ga: "getattr ?A ''output'' = Some (PList ?outs)" by simp
  have sh: "list_all item_shaped ?outs" by (simp add: item_shaped_def part_shaped_def)
  have its: "item_texts ?outs = [PStr ''{}'']"
    by (simp add: item_texts_def List.map_filter_simps first_text_of_item_def is_output_text_def)
  have pd: "py_dict ?A = Inr ?attrs" by simp
  have fb: "\<not> truthy (first_segment ?B)" by (simp add: defs)
  have ob: "getattr ?B ''output_text'' = Some (PStr ''one'')" by simp
  have fc: "\<not> truthy (first_segment ?C)" by (simp add: defs)
  have oc: "\<not> truthy (getattr_default ?C ''output_text'' PNone)" by (simp add: defs)
  have cc: "getattr ?C ''content'' = Some (PStr ''legacy text'')" by simp
  have fe: "first_segment ?E = PNone" by (simp add: defs)
  have oe: "getattr ?E ''output_text'' = None" by simp
  have ce: "getattr ?E ''content'' = None" by simp
  note tA = extraction_is_truthiness_chain
    [where response = ?A and outs = ?outs and s = "''{}''" and dumps = dumps_names
       and transport = "\<lambda>k m t. Inr ?A" and api_key = "''sk-test''" and model = "''gpt-5-nano''"
       and user_text = "ascii ''My analysis''" and attrs = ?attrs]
  note tB = extraction_is_truthiness_chain [where response = ?B and s = "''one''" and dumps = dumps_names]
  note tC = extraction_is_truthiness_chain
    [where response = ?C and s = "''legacy text''" and dumps = dumps_names]
  note tE = extraction_is_truthiness_chain [where response = ?E and dumps = dumps_names]
  from tA [THEN conjunct2, THEN conjunct2, THEN conjunct1] ga sh
  have fa: "first_segment ?A = PStr ''{}''" by (simp add: its)
  from tA [THEN conjunct2, THEN conjunct2, THEN conjunct2, THEN conjunct1] fa
  have ea: "extract_text dumps_names ?A = Inr ''{}''" by simp
  from tA [THEN conjunct2, THEN conjunct1]
  have "call_agent (\<lambda>k m t. Inr ?A) dumps_names ''sk-test'' ''gpt-5-nano'' (ascii ''My analysis'')
          = spec_extract dumps_names ?A"
    by simp
  moreover from tA
  have "extract_text dumps_names ?A = spec_extract dumps_names ?A" by (rule conjunct1)
  ultimately
  have ca: "call_agent (\<lambda>k m t. Inr ?A) dumps_names ''sk-test'' ''gpt-5-nano'' (ascii ''My analysis'')
       = Inr ''{}''"
    using ea by simp
  from tB [THEN conjunct2, THEN conjunct2, THEN conjunct2, THEN conjunct2, THEN conjunct1] fb ob
  have eb: "extract_text dumps_names ?B = Inr ''one''" by simp
  from tC [THEN conjunct2, THEN conjunct2, THEN conjunct2, THEN conjunct2, THEN conjunct2,
      THEN conjunct1] fc oc cc
  have ec: "extract_text dumps_names ?C = Inr ''legacy text''" by simp
  from tE [THEN conjunct2, THEN conjunct2, THEN conjunct2, THEN conjunct2, THEN conjunct2,
      THEN conjunct2, THEN conjunct1] fe oe ce
  have ee: "extract_text dumps_names ?E = Inr ''id, output''"
    by (simp add: serialise_def dumps_names_def)
  show ?thesis
    by (intro conjI; fact tr ca ga sh fa ea pd fb ob eb fc oc cc ec fe oe ce ee)
qed

end
